theory Spec2Isabelle
  imports Main "HOL-Library.Word" "HOL-Library.AList"
begin

section \<open>Chain data\<close>

text \<open>
  The emulator (package \<open>emulator\<close>, type \<open>Blockchain\<close>) works on values of the
  flow-go model: identifiers, headers, blocks, transaction bodies, events. They come
  from a library, so the model keeps the fields the emulator reads and writes.

  An identifier is a content hash. The hash itself is the library's; here it is the
  symbolic hash of the content it covers, so that \<open>ID()\<close> is a function of the value.
\<close>

datatype Identifier =
    ZeroID
  | ScriptHash string
  | TransactionHash string nat nat
  | CollectionHash "Identifier list"
  | BlockHash "64 word" "64 word" Identifier nat "Identifier list"

record transaction_body =
  tx_Script :: string
  tx_ProposalAddress :: nat
  tx_ProposalSequenceNumber :: nat

definition transaction_ID :: "transaction_body \<Rightarrow> Identifier" where
  "transaction_ID tx =
     TransactionHash (tx_Script tx) (tx_ProposalAddress tx) (tx_ProposalSequenceNumber tx)"

record light_collection =
  col_Transactions :: "Identifier list"

definition collection_ID :: "light_collection \<Rightarrow> Identifier" where
  "collection_ID c = CollectionHash (col_Transactions c)"

record header =
  Height :: "64 word"
  View :: "64 word"
  ParentID :: Identifier
  Timestamp :: nat

record block =
  Header :: header
  Guarantees :: "Identifier list"

definition block_ID :: "block \<Rightarrow> Identifier" where
  "block_ID blk =
     BlockHash (Height (Header blk)) (View (Header blk)) (ParentID (Header blk))
       (Timestamp (Header blk)) (Guarantees blk)"

record event =
  ev_Type :: string
  ev_TransactionID :: Identifier
  ev_EventIndex :: nat
  ev_Payload :: string

record account =
  acc_Address :: nat
  acc_Balance :: nat

section \<open>Errors\<close>

text \<open>
  \<open>storage.ErrNotFound\<close> is the store's sentinel; every other error of a store is
  a failure of the backend.
\<close>

datatype store_error = ErrNotFound | ErrBackend string

text \<open>An error of the virtual machine: its code and its message.\<close>

datatype fvm_error = FVMError nat string

text \<open>
  The Go code returns values of the interface \<open>error\<close>. Each constructor is one of
  the concrete error types the emulator builds; \<open>RawStoreError\<close> is a store's error
  passed on as it is, \<open>WrappedStoreError\<close> the result of \<open>fmt.Errorf\<close> with \<open>%w\<close>,
  \<open>FatalError\<close> an error of a library call passed on as it is.
\<close>

datatype error =
    PendingBlockMidExecutionError Identifier
  | PendingBlockCommitBeforeExecutionError Identifier
  | PendingBlockTransactionsExhaustedError Identifier
  | DuplicateTransactionError Identifier
  | BlockNotFoundByHeightError "64 word"
  | BlockNotFoundByIDError Identifier
  | CollectionNotFoundError Identifier
  | TransactionNotFoundError Identifier
  | AccountNotFoundError nat
  | StorageError store_error
  | RawStoreError store_error
  | WrappedStoreError string store_error
  | InvalidArgumentError string
  | PlainError string
  | AccessError string
  | FatalError string
  | IndexOutOfRange

section \<open>Ledger views\<close>

text \<open>
  A ledger view (\<open>delta.View\<close>) is a copy-on-write overlay: reads fall through to the
  registers it was made from, writes stay in its own delta.
\<close>

record ledger_view =
  lv_base :: "nat \<rightharpoonup> nat"
  lv_delta :: "nat \<rightharpoonup> nat"

definition NewChild :: "ledger_view \<Rightarrow> ledger_view" where
  "NewChild v = \<lparr>lv_base = lv_base v ++ lv_delta v, lv_delta = Map.empty\<rparr>"

definition Delta :: "ledger_view \<Rightarrow> (nat \<rightharpoonup> nat)" where
  "Delta v = lv_delta v"

section \<open>The virtual machine\<close>

text \<open>
  \<open>fvm.TransactionProcedure\<close> and the script procedure. \<open>fvm.Transaction(txBody,
  txIndex)\<close> makes a procedure for a body and its position; the virtual machine
  fills in the outcome while it runs (the transaction's error, events, logs and the
  computation used) and leaves body and position as they were made.
\<close>

record transaction_output =
  out_Err :: "fvm_error option"
  out_Events :: "event list"
  out_Logs :: "string list"
  out_ComputationUsed :: nat

record transaction_procedure =
  tp_Transaction :: transaction_body
  tp_TxIndex :: "32 word"
  tp_Err :: "fvm_error option"
  tp_Events :: "event list"
  tp_Logs :: "string list"
  tp_ComputationUsed :: nat

record script_procedure =
  sp_Script :: string
  sp_Arguments :: "string list"
  sp_Value :: "string option"
  sp_Err :: "fvm_error option"
  sp_Events :: "event list"
  sp_Logs :: "string list"
  sp_GasUsed :: nat

definition Transaction ::
  "transaction_body \<Rightarrow> 32 word \<Rightarrow> transaction_output \<Rightarrow> transaction_procedure" where
  "Transaction txBody txIndex out =
     \<lparr>tp_Transaction = txBody, tp_TxIndex = txIndex, tp_Err = out_Err out,
      tp_Events = out_Events out, tp_Logs = out_Logs out,
      tp_ComputationUsed = out_ComputationUsed out\<rparr>"

definition Script :: "string \<Rightarrow> string list \<Rightarrow> script_procedure" where
  "Script code arguments =
     \<lparr>sp_Script = code, sp_Arguments = arguments, sp_Value = None, sp_Err = None,
      sp_Events = [], sp_Logs = [], sp_GasUsed = 0\<rparr>"

text \<open>
  The virtual machine is a black box with the contract \<open>Run(context, procedure, view)\<close>:
  it changes the procedure and the view it is given and returns a fatal error or none.
  The context the emulator builds differs from call to call in the block header only.
  For a transaction the machine is given the body and the position and returns the
  outcome; for a script it returns the procedure as it has filled it.
\<close>

record virtual_machine =
  RunTransaction :: "header \<Rightarrow> transaction_body \<Rightarrow> 32 word \<Rightarrow> ledger_view
                      \<Rightarrow> string option \<times> transaction_output \<times> ledger_view"
  RunScript :: "header \<Rightarrow> script_procedure \<Rightarrow> ledger_view
                      \<Rightarrow> string option \<times> script_procedure \<times> ledger_view"
  GetAccount :: "nat \<Rightarrow> ledger_view \<Rightarrow> account option \<times> fvm_error option"

text \<open>\<open>fvmerrors.IsAccountNotFoundError\<close>: the error has the code of a missing account.\<close>

definition ErrCodeAccountNotFoundError :: nat where
  "ErrCodeAccountNotFoundError = 1201"

definition IsAccountNotFoundError :: "fvm_error option \<Rightarrow> bool" where
  "IsAccountNotFoundError err =
     (case err of None \<Rightarrow> False | Some (FVMError code msg) \<Rightarrow> code = ErrCodeAccountNotFoundError)"

section \<open>Results\<close>

text \<open>\<open>types.TransactionResult\<close>, \<open>types.StorableTransactionResult\<close>,
  \<open>access.TransactionResult\<close> and \<open>types.ScriptResult\<close>.\<close>

record TransactionResult =
  tr_TransactionID :: Identifier
  tr_ComputationUsed :: nat
  tr_Error :: "fvm_error option"
  tr_Logs :: "string list"
  tr_Events :: "event list"

definition Succeeded :: "TransactionResult \<Rightarrow> bool" where
  "Succeeded r = (tr_Error r = None)"

definition Reverted :: "TransactionResult \<Rightarrow> bool" where
  "Reverted r = (\<not> Succeeded r)"

record StorableTransactionResult =
  str_ErrorCode :: nat
  str_ErrorMessage :: string
  str_Logs :: "string list"
  str_Events :: "event list"

datatype BlockStatus = BlockStatusUnknown | BlockStatusFinalized | BlockStatusSealed

datatype TransactionStatus =
    TransactionStatusUnknown
  | TransactionStatusPending
  | TransactionStatusFinalized
  | TransactionStatusExecuted
  | TransactionStatusSealed
  | TransactionStatusExpired

record access_TransactionResult =
  atr_Status :: TransactionStatus
  atr_StatusCode :: nat
  atr_ErrorMessage :: string
  atr_Events :: "event list"
  atr_TransactionID :: Identifier
  atr_BlockHeight :: "64 word"

record ScriptResult =
  sr_ScriptID :: Identifier
  sr_Value :: "string option"
  sr_Error :: "fvm_error option"
  sr_Logs :: "string list"
  sr_Events :: "event list"
  sr_ComputationUsed :: nat


record IndexedTransactionResult =
  itr_Transaction :: transaction_procedure
  itr_Index :: "32 word"

section \<open>The store\<close>

text \<open>
  The committed chain state is behind the interface \<open>storage.Store\<close>, with several
  backends. A store is the answers it gives: one function per lookup of the
  interface, each returning the value or the store's error. \<open>CommitFault\<close> is the
  error the backend raises on the next commit, if any.
\<close>

record store =
  LatestBlock :: "store_error + block"
  BlockByHeight :: "64 word \<Rightarrow> store_error + block"
  BlockByID :: "Identifier \<Rightarrow> store_error + block"
  CollectionByID :: "Identifier \<Rightarrow> store_error + light_collection"
  TransactionByID :: "Identifier \<Rightarrow> store_error + transaction_body"
  TransactionResultByID :: "Identifier \<Rightarrow> store_error + StorableTransactionResult"
  EventsByHeight :: "64 word \<Rightarrow> string \<Rightarrow> store_error + event list"
  LedgerViewByHeight :: "64 word \<Rightarrow> ledger_view"
  CommitFault :: "store_error option"

text \<open>
  Modelled from the spec: the method \<open>CommitBlock\<close> of the store (the backends of
  package \<open>storage\<close> are not among the sources). The spec's store contract:
  \<open>CommitBlock(block, collections, transactions, results, delta, events)\<close> persists
  all of them or nothing; afterwards the block is the latest one and is found by its
  height and by its ID, collections, transactions and results are found by their IDs,
  the events by the block's height (filtered by type when a type is given), and the
  ledger at the block's height is the one below it with the delta applied.
\<close>

definition storage_CommitBlock ::
  "store \<Rightarrow> block \<Rightarrow> light_collection list \<Rightarrow> transaction_body list
     \<Rightarrow> (Identifier \<times> StorableTransactionResult) list \<Rightarrow> (nat \<rightharpoonup> nat) \<Rightarrow> event list
     \<Rightarrow> store_error + store" where
  "storage_CommitBlock st blk cols txs results d evs =
     (case CommitFault st of
        Some e \<Rightarrow> Inl e
      | None \<Rightarrow>
          Inr (st\<lparr>
            LatestBlock := Inr blk,
            BlockByHeight := (BlockByHeight st)(Height (Header blk) := Inr blk),
            BlockByID := (BlockByID st)(block_ID blk := Inr blk),
            CollectionByID :=
              (\<lambda>i. case find (\<lambda>c. collection_ID c = i) cols of
                     Some c \<Rightarrow> Inr c | None \<Rightarrow> CollectionByID st i),
            TransactionByID :=
              (\<lambda>i. case find (\<lambda>t. transaction_ID t = i) txs of
                     Some t \<Rightarrow> Inr t | None \<Rightarrow> TransactionByID st i),
            TransactionResultByID :=
              (\<lambda>i. case map_of results i of
                     Some r \<Rightarrow> Inr r | None \<Rightarrow> TransactionResultByID st i),
            EventsByHeight :=
              (EventsByHeight st)(Height (Header blk) :=
                 (\<lambda>ty. Inr (filter (\<lambda>e. ty = [] \<or> ev_Type e = ty) evs))),
            LedgerViewByHeight :=
              (LedgerViewByHeight st)(Height (Header blk) :=
                 \<lparr>lv_base = lv_base (LedgerViewByHeight st (Height (Header blk) - 1)) ++ d,
                  lv_delta = Map.empty\<rparr>)\<rparr>))"

section \<open>The coordination lock\<close>

text \<open>
  \<open>sync.RWMutex\<close>, seen by one caller: the mutex is held by a writer or by a
  number of readers (none when it is free). \<open>Lock\<close> and \<open>RLock\<close> return the new
  state of the mutex, or nothing when the caller has to wait for another holder.
\<close>

datatype rwmutex = WriteLocked | Readers nat

abbreviation Unlocked :: rwmutex where
  "Unlocked \<equiv> Readers 0"

definition Lock :: "rwmutex \<Rightarrow> rwmutex option" where
  "Lock m = (if m = Unlocked then Some WriteLocked else None)"

definition Unlock :: "rwmutex \<Rightarrow> rwmutex" where
  "Unlock m = Unlocked"

definition RLock :: "rwmutex \<Rightarrow> rwmutex option" where
  "RLock m = (case m of Readers n \<Rightarrow> Some (Readers (Suc n)) | WriteLocked \<Rightarrow> None)"

definition RUnlock :: "rwmutex \<Rightarrow> rwmutex" where
  "RUnlock m = (case m of Readers n \<Rightarrow> Readers (n - 1) | WriteLocked \<Rightarrow> WriteLocked)"

section \<open>The pending block\<close>

text \<open>
  Modelled from the spec: the type \<open>pendingBlock\<close> (the file that declares it and
  its methods is not among the sources; the coordinator calls them). The spec's data
  model: header fields fixed at creation (parent, height = parent height + 1, a
  freshly computed view), an ordered queue of admitted transactions, an execution
  cursor, one child ledger view, the events, and a mapping from transaction ID to the
  result and its position.
\<close>

record pending_block =
  height :: "64 word"
  parentID :: Identifier
  view :: "64 word"
  timestamp :: nat
  transactions :: "transaction_body list"
  index :: nat
  transactionResults :: "(Identifier \<times> IndexedTransactionResult) list"
  ledgerView :: ledger_view
  events :: "event list"

text \<open>What a new header takes from outside the chain: the view increase and the clock.\<close>

record fresh =
  fresh_ViewIncrease :: "64 word"
  fresh_Timestamp :: nat

text \<open>
  Modelled from the spec: \<open>newPendingBlock\<close> (not among the sources). A pending block
  is created open and empty on a committed block: its parent is that block, its height
  the parent's height plus one, its view freshly computed above the parent's, its
  ledger view a child of the view it is given.
\<close>

definition newPendingBlock :: "fresh \<Rightarrow> block \<Rightarrow> ledger_view \<Rightarrow> pending_block" where
  "newPendingBlock f prevBlock lv =
     \<lparr>height = Height (Header prevBlock) + 1,
      parentID = block_ID prevBlock,
      view = View (Header prevBlock) + fresh_ViewIncrease f,
      timestamp = fresh_Timestamp f,
      transactions = [],
      index = 0,
      transactionResults = [],
      ledgerView = NewChild lv,
      events = []\<rparr>"

text \<open>
  Modelled from the spec: \<open>ExecutionStarted\<close>, \<open>ExecutionComplete\<close> and \<open>Empty\<close> of
  the pending block (not among the sources). The spec's states: Open (cursor at 0),
  Executing (cursor above 0 and below the queue length), Complete (cursor equal to
  the queue length); an empty pending block has zero transactions.
\<close>

definition ExecutionStarted :: "pending_block \<Rightarrow> bool" where
  "ExecutionStarted pb = (index pb > 0)"

definition ExecutionComplete :: "pending_block \<Rightarrow> bool" where
  "ExecutionComplete pb = (index pb = length (transactions pb))"

definition Empty :: "pending_block \<Rightarrow> bool" where
  "Empty pb = (transactions pb = [])"

text \<open>
  Modelled from the spec: \<open>ContainsTransaction\<close>, \<open>GetTransaction\<close> and
  \<open>AddTransaction\<close> of the pending block (not among the sources). A transaction is in
  the block when its ID is the ID of a queued transaction; adding appends to the
  queue in arrival order and triggers no execution.
\<close>

definition ContainsTransaction :: "pending_block \<Rightarrow> Identifier \<Rightarrow> bool" where
  "ContainsTransaction pb txID = (txID \<in> set (map transaction_ID (transactions pb)))"


definition pb_AddTransaction :: "pending_block \<Rightarrow> transaction_body \<Rightarrow> pending_block" where
  "pb_AddTransaction pb tx = pb\<lparr>transactions := transactions pb @ [tx]\<rparr>"

text \<open>
  Modelled from the spec: the accessors \<open>Collections\<close>, \<open>Block\<close>, \<open>ID\<close>,
  \<open>Transactions\<close>, \<open>TransactionResults\<close>, \<open>LedgerDelta\<close> and \<open>Events\<close> of the
  pending block (not among the sources). The block has the header fields fixed at
  creation and a payload that refers to the collections; an empty pending block has
  zero collections, otherwise the queued transaction IDs are grouped, in order, into
  one collection.
\<close>

definition Collections :: "pending_block \<Rightarrow> light_collection list" where
  "Collections pb =
     (if transactions pb = [] then []
      else [\<lparr>col_Transactions = map transaction_ID (transactions pb)\<rparr>])"

definition pb_Block :: "pending_block \<Rightarrow> block" where
  "pb_Block pb =
     \<lparr>Header = \<lparr>Height = height pb, View = view pb, ParentID = parentID pb,
                 Timestamp = timestamp pb\<rparr>,
      Guarantees = map collection_ID (Collections pb)\<rparr>"

definition pb_ID :: "pending_block \<Rightarrow> Identifier" where
  "pb_ID pb = block_ID (pb_Block pb)"

definition Transactions :: "pending_block \<Rightarrow> transaction_body list" where
  "Transactions pb = transactions pb"

definition TransactionResults :: "pending_block \<Rightarrow> (Identifier \<times> IndexedTransactionResult) list" where
  "TransactionResults pb = transactionResults pb"

definition LedgerDelta :: "pending_block \<Rightarrow> (nat \<rightharpoonup> nat)" where
  "LedgerDelta pb = Delta (ledgerView pb)"

definition Events :: "pending_block \<Rightarrow> event list" where
  "Events pb = events pb"

text \<open>
  Modelled from the spec: \<open>ExecuteNextTransaction(runner)\<close> of the pending block
  (not among the sources). It takes the transaction at the cursor, runs it against
  the block's view with the cursor as its position, advances the cursor by one
  whatever the outcome of the transaction, and stores the result under the
  transaction's ID; a fatal error of the runner aborts without advancing the cursor.
  The runner changes the view in place. The coordinator calls it only when the
  cursor is below the queue length; reading the queue at or beyond its length is a
  run-time panic.
\<close>

definition pb_ExecuteNextTransaction ::
  "pending_block
     \<Rightarrow> (ledger_view \<Rightarrow> 32 word \<Rightarrow> transaction_body
           \<Rightarrow> (error + transaction_procedure) \<times> ledger_view)
     \<Rightarrow> (error + transaction_procedure) \<times> pending_block" where
  "pb_ExecuteNextTransaction pb execute =
     (if index pb < length (transactions pb) then
        (let txBody = transactions pb ! index pb;
             txIndex = (word_of_nat (index pb) :: 32 word)
         in case execute (ledgerView pb) txIndex txBody of
              (Inl err, lv) \<Rightarrow> (Inl err, pb\<lparr>ledgerView := lv\<rparr>)
            | (Inr tp, lv) \<Rightarrow>
                (Inr tp,
                 pb\<lparr>index := index pb + 1,
                    ledgerView := lv,
                    events := events pb @ tp_Events tp,
                    transactionResults :=
                      AList.update (transaction_ID txBody)
                        \<lparr>itr_Transaction = tp, itr_Index = txIndex\<rparr>
                        (transactionResults pb)\<rparr>))
      else (Inl IndexOutOfRange, pb))"

section \<open>The blockchain\<close>

text \<open>
  The struct \<open>Blockchain\<close>: the store, the mutex protecting the pending block, the
  pending block, the virtual machine, the transaction validator and the auto-mine
  switch. The validator is the library's: it returns an error or none.
  \<open>FlowEventsToSDK\<close> is the conversion of events of the SDK the emulator imports;
  it fails on an event it cannot decode. The logger, the service key and the debugger
  take no part in what follows and are left out, and so is the debugging hint that
  \<open>executeNextTransaction\<close> attaches to a reverted result.
\<close>

record Blockchain =
  storage :: store
  mu :: rwmutex
  pendingBlock :: pending_block
  vm :: virtual_machine
  transactionValidator :: "transaction_body \<Rightarrow> string option"
  autoMine :: bool
  FlowEventsToSDK :: "event list \<Rightarrow> string + event list"

text \<open>\<open>b.mu.Lock(); defer b.mu.Unlock()\<close> around a body, and the same for readers.
  The result is \<open>None\<close> when the caller waits for the mutex.\<close>

definition with_Lock ::
  "Blockchain \<Rightarrow> (Blockchain \<Rightarrow> 'r \<times> Blockchain) \<Rightarrow> ('r \<times> Blockchain) option" where
  "with_Lock b body =
     (case Lock (mu b) of
        None \<Rightarrow> None
      | Some m \<Rightarrow>
          (case body (b\<lparr>mu := m\<rparr>) of (r, b') \<Rightarrow> Some (r, b'\<lparr>mu := Unlock (mu b')\<rparr>)))"

definition with_RLock :: "Blockchain \<Rightarrow> (Blockchain \<Rightarrow> 'r) \<Rightarrow> ('r \<times> Blockchain) option" where
  "with_RLock b body =
     (case RLock (mu b) of
        None \<Rightarrow> None
      | Some m \<Rightarrow> Some (body (b\<lparr>mu := m\<rparr>), b\<lparr>mu := RUnlock m\<rparr>))"

section \<open>Lookups\<close>

definition GetLatestBlock :: "Blockchain \<Rightarrow> error + block \<times> BlockStatus" where
  "GetLatestBlock b =
     (case LatestBlock (storage b) of
        Inl err \<Rightarrow> Inl (StorageError err)
      | Inr blk \<Rightarrow> Inr (blk, BlockStatusSealed))"

definition getBlockByHeight :: "Blockchain \<Rightarrow> 64 word \<Rightarrow> error + block" where
  "getBlockByHeight b h =
     (case BlockByHeight (storage b) h of
        Inl err \<Rightarrow>
          (if err = ErrNotFound then Inl (BlockNotFoundByHeightError h)
           else Inl (RawStoreError err))
      | Inr blk \<Rightarrow> Inr blk)"


definition GetBlockByID :: "Blockchain \<Rightarrow> Identifier \<Rightarrow> error + block \<times> BlockStatus" where
  "GetBlockByID b i =
     (case BlockByID (storage b) i of
        Inl err \<Rightarrow>
          (if err = ErrNotFound then Inl (BlockNotFoundByIDError i)
           else Inl (StorageError err))
      | Inr blk \<Rightarrow> Inr (blk, BlockStatusSealed))"



definition GetTransactionResult ::
  "Blockchain \<Rightarrow> Identifier \<Rightarrow> ((error + access_TransactionResult) \<times> Blockchain) option" where
  "GetTransactionResult b txID =
     with_RLock b (\<lambda>b.
       if ContainsTransaction (pendingBlock b) txID then
         Inr \<lparr>atr_Status = TransactionStatusPending, atr_StatusCode = 0,
              atr_ErrorMessage = [], atr_Events = [], atr_TransactionID = ZeroID,
              atr_BlockHeight = 0\<rparr>
       else
         (case TransactionResultByID (storage b) txID of
            Inl err \<Rightarrow>
              (if err = ErrNotFound then
                 Inr \<lparr>atr_Status = TransactionStatusUnknown, atr_StatusCode = 0,
                      atr_ErrorMessage = [], atr_Events = [], atr_TransactionID = ZeroID,
                      atr_BlockHeight = 0\<rparr>
               else Inl (StorageError err))
          | Inr storedResult \<Rightarrow>
              Inr \<lparr>atr_Status = TransactionStatusSealed,
                   atr_StatusCode = str_ErrorCode storedResult,
                   atr_ErrorMessage = str_ErrorMessage storedResult,
                   atr_Events = str_Events storedResult,
                   atr_TransactionID = txID,
                   atr_BlockHeight = 0\<rparr>))"

definition GetAccountAtBlockHeight ::
  "Blockchain \<Rightarrow> nat \<Rightarrow> 64 word \<Rightarrow> error + account option" where
  "GetAccountAtBlockHeight b address blockHeight =
     (case GetAccount (vm b) address (LedgerViewByHeight (storage b) blockHeight) of
        (acct, err) \<Rightarrow>
          (if IsAccountNotFoundError err then Inl (AccountNotFoundError address)
           else Inr acct))"

definition GetAccount_latest :: "Blockchain \<Rightarrow> nat \<Rightarrow> error + account option" where
  "GetAccount_latest b address =
     (case GetLatestBlock b of
        Inl err \<Rightarrow> Inl err
      | Inr (latestBlock, status) \<Rightarrow>
          GetAccountAtBlockHeight b address (Height (Header latestBlock)))"

section \<open>Events\<close>







section \<open>Scripts\<close>

text \<open>
  A script runs on a view of the ledger at the height of the requested block. The
  virtual machine writes into that view; the view is a local of
  \<open>executeScriptAtBlock\<close> and is dropped when it returns. The functions return the
  blockchain next to the result, so that what a call leaves behind can be stated.
\<close>

definition executeScriptAtBlock ::
  "Blockchain \<Rightarrow> string \<Rightarrow> string list \<Rightarrow> block \<Rightarrow> (error + ScriptResult) \<times> Blockchain" where
  "executeScriptAtBlock b script arguments requestedBlock =
     (let requestedLedgerView =
            LedgerViewByHeight (storage b) (Height (Header requestedBlock));
          hdr = Header requestedBlock;
          scriptProc = Script script arguments
      in case RunScript (vm b) hdr scriptProc requestedLedgerView of
           (Some err, scriptProc', requestedLedgerView') \<Rightarrow> (Inl (FatalError err), b)
         | (None, scriptProc', requestedLedgerView') \<Rightarrow>
             (case FlowEventsToSDK b (sp_Events scriptProc') of
                Inl err \<Rightarrow> (Inl (FatalError err), b)
              | Inr evs \<Rightarrow>
                  (Inr \<lparr>sr_ScriptID = ScriptHash script,
                        sr_Value = (if sp_Err scriptProc' = None then sp_Value scriptProc' else None),
                        sr_Error = sp_Err scriptProc',
                        sr_Logs = sp_Logs scriptProc',
                        sr_Events = evs,
                        sr_ComputationUsed = sp_GasUsed scriptProc'\<rparr>, b)))"

definition ExecuteScript ::
  "Blockchain \<Rightarrow> string \<Rightarrow> string list \<Rightarrow> ((error + ScriptResult) \<times> Blockchain) option" where
  "ExecuteScript b script arguments =
     (case RLock (mu b) of
        None \<Rightarrow> None
      | Some m \<Rightarrow>
          (case (case GetLatestBlock (b\<lparr>mu := m\<rparr>) of
                   Inl err \<Rightarrow> (Inl err, b\<lparr>mu := m\<rparr>)
                 | Inr (latestBlock, status) \<Rightarrow>
                     executeScriptAtBlock (b\<lparr>mu := m\<rparr>) script arguments latestBlock) of
             (r, b') \<Rightarrow> Some (r, b'\<lparr>mu := RUnlock (mu b')\<rparr>)))"

definition ExecuteScriptAtBlockID ::
  "Blockchain \<Rightarrow> string \<Rightarrow> string list \<Rightarrow> Identifier \<Rightarrow> (error + ScriptResult) \<times> Blockchain" where
  "ExecuteScriptAtBlockID b script arguments blockID =
     (case GetBlockByID b blockID of
        Inl err \<Rightarrow> (Inl err, b)
      | Inr (requestedBlock, status) \<Rightarrow>
          executeScriptAtBlock b script arguments requestedBlock)"

definition ExecuteScriptAtBlockHeight ::
  "Blockchain \<Rightarrow> string \<Rightarrow> string list \<Rightarrow> 64 word
     \<Rightarrow> ((error + ScriptResult) \<times> Blockchain) option" where
  "ExecuteScriptAtBlockHeight b script arguments blockHeight =
     (case RLock (mu b) of
        None \<Rightarrow> None
      | Some m \<Rightarrow>
          (case (case getBlockByHeight (b\<lparr>mu := m\<rparr>) blockHeight of
                   Inl err \<Rightarrow> (Inl err, b\<lparr>mu := m\<rparr>)
                 | Inr requestedBlock \<Rightarrow>
                     executeScriptAtBlock (b\<lparr>mu := m\<rparr>) script arguments requestedBlock) of
             (r, b') \<Rightarrow> Some (r, b'\<lparr>mu := RUnlock (mu b')\<rparr>)))"

section \<open>Transactions\<close>

text \<open>
  Modelled from the spec: \<open>convertAccessError\<close> (not among the sources). The spec
  says that a validation failure surfaces from \<open>AddTransaction\<close> and leaves the
  pending block as it was; the error keeps the validator's message.
\<close>

definition convertAccessError :: "string \<Rightarrow> error" where
  "convertAccessError err = AccessError err"

definition AddTransaction :: "Blockchain \<Rightarrow> transaction_body \<Rightarrow> error + Blockchain" where
  "AddTransaction b tx =
     (if ExecutionStarted (pendingBlock b) then
        Inl (PendingBlockMidExecutionError (pb_ID (pendingBlock b)))
      else if ContainsTransaction (pendingBlock b) (transaction_ID tx) then
        Inl (DuplicateTransactionError (transaction_ID tx))
      else
        (case TransactionByID (storage b) (transaction_ID tx) of
           Inr found \<Rightarrow> Inl (DuplicateTransactionError (transaction_ID tx))
         | Inl err \<Rightarrow>
             (if err \<noteq> ErrNotFound then
                Inl (WrappedStoreError ''failed to check storage for transaction '' err)
              else
                (case transactionValidator b tx of
                   Some err \<Rightarrow> Inl (convertAccessError err)
                 | None \<Rightarrow>
                     Inr (b\<lparr>pendingBlock := pb_AddTransaction (pendingBlock b) tx\<rparr>)))))"

text \<open>
  Modelled from the spec: \<open>convert.VMTransactionResultToEmulator\<close> and
  \<open>convert.ToStorableResult\<close> (package \<open>convert\<close> is not among the sources). A
  transaction result carries the transaction's ID, the error if any, the events in
  order, the computation used and the logs; the stored result carries the error's
  code and message, the logs and the events.
\<close>

definition VMTransactionResultToEmulator ::
  "(event list \<Rightarrow> string + event list) \<Rightarrow> transaction_procedure \<Rightarrow> error + TransactionResult" where
  "VMTransactionResultToEmulator conv tp =
     (case conv (tp_Events tp) of
        Inl err \<Rightarrow> Inl (FatalError err)
      | Inr evs \<Rightarrow>
          Inr \<lparr>tr_TransactionID = transaction_ID (tp_Transaction tp),
               tr_ComputationUsed = tp_ComputationUsed tp,
               tr_Error = tp_Err tp,
               tr_Logs = tp_Logs tp,
               tr_Events = evs\<rparr>)"

definition ToStorableResult :: "transaction_procedure \<Rightarrow> error + StorableTransactionResult" where
  "ToStorableResult tp =
     Inr \<lparr>str_ErrorCode = (case tp_Err tp of None \<Rightarrow> 0 | Some (FVMError code msg) \<Rightarrow> code),
          str_ErrorMessage = (case tp_Err tp of None \<Rightarrow> [] | Some (FVMError code msg) \<Rightarrow> msg),
          str_Logs = tp_Logs tp,
          str_Events = tp_Events tp\<rparr>"

fun convertToSealedResults ::
  "(Identifier \<times> IndexedTransactionResult) list
     \<Rightarrow> error + (Identifier \<times> StorableTransactionResult) list" where
  "convertToSealedResults [] = Inr []"
| "convertToSealedResults ((i, result) # rest) =
     (case ToStorableResult (itr_Transaction result) of
        Inl err \<Rightarrow> Inl err
      | Inr temp \<Rightarrow>
          (case convertToSealedResults rest of
             Inl err \<Rightarrow> Inl err
           | Inr output \<Rightarrow> Inr ((i, temp) # output)))"

definition executeNextTransaction ::
  "header \<Rightarrow> Blockchain \<Rightarrow> (error + TransactionResult) \<times> Blockchain" where
  "executeNextTransaction ctx b =
     (if ExecutionComplete (pendingBlock b) then
        (Inl (PendingBlockTransactionsExhaustedError (pb_ID (pendingBlock b))), b)
      else
        (case pb_ExecuteNextTransaction (pendingBlock b)
                (\<lambda>lv txIndex txBody.
                   case RunTransaction (vm b) ctx txBody txIndex lv of
                     (Some err, out, lv') \<Rightarrow> (Inl (FatalError err), lv')
                   | (None, out, lv') \<Rightarrow> (Inr (Transaction txBody txIndex out), lv')) of
           (Inl err, pb') \<Rightarrow> (Inl err, b\<lparr>pendingBlock := pb'\<rparr>)
         | (Inr tp, pb') \<Rightarrow>
             (case VMTransactionResultToEmulator (FlowEventsToSDK b) tp of
                Inl err \<Rightarrow> (Inl err, b\<lparr>pendingBlock := pb'\<rparr>)
              | Inr tr \<Rightarrow> (Inr tr, b\<lparr>pendingBlock := pb'\<rparr>))))"

function ExecuteBlock_loop ::
  "header \<Rightarrow> Blockchain \<Rightarrow> TransactionResult list
     \<Rightarrow> (TransactionResult list \<times> error option) \<times> Blockchain" where
  "ExecuteBlock_loop ctx b results =
     (if ExecutionComplete (pendingBlock b) then ((results, None), b)
      else
        (case executeNextTransaction ctx b of
           (Inl err, b') \<Rightarrow> ((results, Some err), b')
         | (Inr result, b') \<Rightarrow> ExecuteBlock_loop ctx b' (results @ [result])))"
  by pat_completeness auto

termination ExecuteBlock_loop
  apply (relation "measure (\<lambda>(ctx, b, rs). length (transactions (pendingBlock b)) - index (pendingBlock b))")
   apply simp
  apply (auto simp: executeNextTransaction_def pb_ExecuteNextTransaction_def Let_def
              split: if_splits prod.splits sum.splits option.splits)
  done

definition ExecuteBlock :: "Blockchain \<Rightarrow> (TransactionResult list \<times> error option) \<times> Blockchain" where
  "ExecuteBlock b =
     (if Empty (pendingBlock b) then (([], None), b)
      else
        (let hdr = Header (pb_Block (pendingBlock b))
         in if ExecutionComplete (pendingBlock b) then
              (([], Some (PendingBlockTransactionsExhaustedError (pb_ID (pendingBlock b)))), b)
            else ExecuteBlock_loop hdr b []))"

definition ExecuteNextTransaction ::
  "Blockchain \<Rightarrow> ((error + TransactionResult) \<times> Blockchain) option" where
  "ExecuteNextTransaction b =
     with_Lock b (\<lambda>b. executeNextTransaction (Header (pb_Block (pendingBlock b))) b)"

definition commitBlock :: "fresh \<Rightarrow> Blockchain \<Rightarrow> (error + block) \<times> Blockchain" where
  "commitBlock f b =
     (if \<not> ExecutionStarted (pendingBlock b) \<and> \<not> Empty (pendingBlock b) then
        (Inl (PendingBlockCommitBeforeExecutionError (pb_ID (pendingBlock b))), b)
      else if ExecutionStarted (pendingBlock b) \<and> \<not> ExecutionComplete (pendingBlock b) then
        (Inl (PendingBlockMidExecutionError (pb_ID (pendingBlock b))), b)
      else
        (let blk = pb_Block (pendingBlock b);
             collections = Collections (pendingBlock b);
             txs = Transactions (pendingBlock b)
         in case convertToSealedResults (TransactionResults (pendingBlock b)) of
              Inl err \<Rightarrow> (Inl err, b)
            | Inr sealedResults \<Rightarrow>
                (let ledgerDelta = LedgerDelta (pendingBlock b);
                     evs = Events (pendingBlock b)
                 in case storage_CommitBlock (storage b) blk collections txs sealedResults
                           ledgerDelta evs of
                      Inl err \<Rightarrow> (Inl (RawStoreError err), b)
                    | Inr st' \<Rightarrow>
                        (let lv = LedgerViewByHeight st' (Height (Header blk))
                         in (Inr blk,
                             b\<lparr>storage := st',
                               pendingBlock := newPendingBlock f blk lv\<rparr>)))))"

definition CommitBlock :: "fresh \<Rightarrow> Blockchain \<Rightarrow> ((error + block) \<times> Blockchain) option" where
  "CommitBlock f b = with_Lock b (commitBlock f)"

text \<open>\<open>executeAndCommitBlock\<close> returns the block, the results and the error, as the
  Go function does: no results when the execution fails, the results without a block
  when the commit fails.\<close>

definition executeAndCommitBlock ::
  "fresh \<Rightarrow> Blockchain
     \<Rightarrow> (block option \<times> TransactionResult list \<times> error option) \<times> Blockchain" where
  "executeAndCommitBlock f b =
     (case ExecuteBlock b of
        ((results, Some err), b') \<Rightarrow> ((None, [], Some err), b')
      | ((results, None), b') \<Rightarrow>
          (case commitBlock f b' of
             (Inl err, b'') \<Rightarrow> ((None, results, Some err), b'')
           | (Inr blk, b'') \<Rightarrow> ((Some blk, results, None), b'')))"

definition ExecuteAndCommitBlock ::
  "fresh \<Rightarrow> Blockchain
     \<Rightarrow> ((block option \<times> TransactionResult list \<times> error option) \<times> Blockchain) option" where
  "ExecuteAndCommitBlock f b = with_Lock b (executeAndCommitBlock f)"

definition ResetPendingBlock :: "fresh \<Rightarrow> Blockchain \<Rightarrow> (error option \<times> Blockchain) option" where
  "ResetPendingBlock f b =
     with_Lock b (\<lambda>b.
       case LatestBlock (storage b) of
         Inl err \<Rightarrow> (Some (StorageError err), b)
       | Inr latestBlock \<Rightarrow>
           (let latestLedgerView =
                  LedgerViewByHeight (storage b) (Height (Header latestBlock))
            in (None, b\<lparr>pendingBlock := newPendingBlock f latestBlock latestLedgerView\<rparr>)))"

text \<open>
  Modelled from the spec: the interface \<open>NotFoundError\<close> (the error types are
  declared in a file that is not among the sources). The spec's not-found errors are
  the five kinds \<open>BlockNotFoundByHeight\<close>, \<open>BlockNotFoundByID\<close>,
  \<open>TransactionNotFound\<close>, \<open>CollectionNotFound\<close> and \<open>AccountNotFound\<close>.
\<close>

definition NotFoundError :: "error \<Rightarrow> bool" where
  "NotFoundError e =
     (case e of
        BlockNotFoundByHeightError h \<Rightarrow> True
      | BlockNotFoundByIDError i \<Rightarrow> True
      | CollectionNotFoundError i \<Rightarrow> True
      | TransactionNotFoundError i \<Rightarrow> True
      | AccountNotFoundError a \<Rightarrow> True
      | _ \<Rightarrow> False)"

section \<open>A small chain\<close>

text \<open>
  A chain to run the operations on: a genesis block, a store that holds it, a store
  whose backend is down, a virtual machine that writes one register on every run and
  reverts the transaction whose script is \<open>panic\<close>, and two transactions.
\<close>

definition genesis :: block where
  "genesis = \<lparr>Header = \<lparr>Height = 0, View = 0, ParentID = ZeroID, Timestamp = 0\<rparr>,
              Guarantees = []\<rparr>"


definition empty_view :: ledger_view where
  "empty_view = \<lparr>lv_base = Map.empty, lv_delta = Map.empty\<rparr>"

definition store0 :: store where
  "store0 =
     \<lparr>LatestBlock = Inr genesis,
      BlockByHeight = (\<lambda>h. if h = 0 then Inr genesis else Inl ErrNotFound),
      BlockByID = (\<lambda>i. if i = block_ID genesis then Inr genesis else Inl ErrNotFound),
      CollectionByID = (\<lambda>i. Inl ErrNotFound),
      TransactionByID = (\<lambda>i. Inl ErrNotFound),
      TransactionResultByID = (\<lambda>i. Inl ErrNotFound),
      EventsByHeight = (\<lambda>h ty. if h = 0 then Inr [] else Inl ErrNotFound),
      LedgerViewByHeight = (\<lambda>h. empty_view),
      CommitFault = None\<rparr>"


definition store_down :: store where
  "store_down =
     \<lparr>LatestBlock = Inl (ErrBackend ''io''),
      BlockByHeight = (\<lambda>h. Inl (ErrBackend ''io'')),
      BlockByID = (\<lambda>i. Inl (ErrBackend ''io'')),
      CollectionByID = (\<lambda>i. Inl (ErrBackend ''io'')),
      TransactionByID = (\<lambda>i. Inl (ErrBackend ''io'')),
      TransactionResultByID = (\<lambda>i. Inl (ErrBackend ''io'')),
      EventsByHeight = (\<lambda>h ty. Inl (ErrBackend ''io'')),
      LedgerViewByHeight = (\<lambda>h. empty_view),
      CommitFault = Some (ErrBackend ''io'')\<rparr>"

definition vm0 :: virtual_machine where
  "vm0 =
     \<lparr>RunTransaction =
        (\<lambda>hdr txBody txIndex lv.
           (None,
            \<lparr>out_Err = (if tx_Script txBody = ''panic''
                         then Some (FVMError 1101 ''revert!'') else None),
             out_Events = [], out_Logs = [], out_ComputationUsed = 1\<rparr>,
            lv\<lparr>lv_delta := (lv_delta lv)(unat txIndex \<mapsto> 1)\<rparr>)),
      RunScript =
        (\<lambda>hdr sp lv.
           (None, sp\<lparr>sp_Value := Some ''ok''\<rparr>, lv\<lparr>lv_delta := (lv_delta lv)(0 \<mapsto> 7)\<rparr>)),
      GetAccount =
        (\<lambda>a lv. if a = 1 then (Some \<lparr>acc_Address = 1, acc_Balance = 10\<rparr>, None)
                else if a = 2 then (None, Some (FVMError 1000 ''ledger failure''))
                else (None, Some (FVMError 1201 ''account not found'')))\<rparr>"

definition fresh0 :: fresh where
  "fresh0 = \<lparr>fresh_ViewIncrease = 1, fresh_Timestamp = 1\<rparr>"

definition tx1 :: transaction_body where
  "tx1 = \<lparr>tx_Script = ''add'', tx_ProposalAddress = 1, tx_ProposalSequenceNumber = 0\<rparr>"

definition tx2 :: transaction_body where
  "tx2 = \<lparr>tx_Script = ''panic'', tx_ProposalAddress = 1, tx_ProposalSequenceNumber = 0\<rparr>"

definition b0 :: Blockchain where
  "b0 =
     \<lparr>storage = store0,
      mu = Unlocked,
      pendingBlock = newPendingBlock fresh0 genesis (LedgerViewByHeight store0 0),
      vm = vm0,
      transactionValidator = (\<lambda>tx. None),
      autoMine = False,
      FlowEventsToSDK = Inr\<rparr>"

definition b_down :: Blockchain where
  "b_down = b0\<lparr>storage := store_down\<rparr>"

text \<open>The pending block with both transactions admitted, after the first step, after
  the second step, and the chain after the commit of that block.\<close>

definition b_two :: Blockchain where
  "b_two = b0\<lparr>pendingBlock := (pendingBlock b0)\<lparr>transactions := [tx1, tx2]\<rparr>\<rparr>"

definition b_mid :: Blockchain where
  "b_mid = snd (executeNextTransaction (Header (pb_Block (pendingBlock b_two))) b_two)"

definition b_done :: Blockchain where
  "b_done = snd (executeNextTransaction (Header (pb_Block (pendingBlock b_mid))) b_mid)"

definition b_sealed :: Blockchain where
  "b_sealed = snd (commitBlock fresh0 b_done)"





section \<open>Evaluating the small chain\<close>

lemmas chain_defs = b0_def store0_def store_down_def b_down_def vm0_def fresh0_def genesis_def
  tx1_def tx2_def empty_view_def newPendingBlock_def NewChild_def b_two_def

lemmas step_defs = executeNextTransaction_def pb_ExecuteNextTransaction_def
  ExecutionComplete_def VMTransactionResultToEmulator_def Transaction_def transaction_ID_def
  pb_Block_def Collections_def collection_ID_def block_ID_def Let_def

lemma b_two_pending:
  "index (pendingBlock b_two) = 0 \<and> transactions (pendingBlock b_two) = [tx1, tx2]
   \<and> mu b_two = Unlocked"
  by (simp add: chain_defs)

lemma b_mid_pending:
  "index (pendingBlock b_mid) = 1 \<and> transactions (pendingBlock b_mid) = [tx1, tx2]
   \<and> mu b_mid = Unlocked"
  by (simp add: b_mid_def chain_defs step_defs)

lemma b_done_pending:
  "index (pendingBlock b_done) = 2 \<and> transactions (pendingBlock b_done) = [tx1, tx2]
   \<and> mu b_done = Unlocked \<and> height (pendingBlock b_done) = 1
   \<and> storage b_done = store0"
  by (simp add: b_done_def b_mid_def chain_defs step_defs)

lemma b_sealed_storage:
  "TransactionResultByID (storage b_sealed) (transaction_ID tx2) =
     Inr \<lparr>str_ErrorCode = 1101, str_ErrorMessage = ''revert!'', str_Logs = [], str_Events = []\<rparr>
   \<and> transactions (pendingBlock b_sealed) = [] \<and> mu b_sealed = Unlocked"
  by (simp add: b_sealed_def b_done_def b_mid_def chain_defs step_defs commitBlock_def
        ExecutionStarted_def Empty_def Transactions_def TransactionResults_def LedgerDelta_def
        Events_def storage_CommitBlock_def ToStorableResult_def Delta_def)

lemma b_done_results:
  "map_of (transactionResults (pendingBlock b_done)) (transaction_ID tx2) =
     Some \<lparr>itr_Transaction =
              \<lparr>tp_Transaction = tx2, tp_TxIndex = 1,
                tp_Err = Some (FVMError 1101 ''revert!''), tp_Events = [], tp_Logs = [],
                tp_ComputationUsed = 1\<rparr>,
            itr_Index = 1\<rparr>"
  by (simp add: b_done_def b_mid_def chain_defs step_defs)

lemma b_mid_run:
  "RunTransaction (vm b_mid) (Header (pb_Block (pendingBlock b_mid)))
     (transactions (pendingBlock b_mid) ! index (pendingBlock b_mid))
     (word_of_nat (index (pendingBlock b_mid))) (ledgerView (pendingBlock b_mid)) =
   (None,
    \<lparr>out_Err = Some (FVMError 1101 ''revert!''), out_Events = [], out_Logs = [],
      out_ComputationUsed = 1\<rparr>,
    (ledgerView (pendingBlock b_mid))\<lparr>lv_delta := (lv_delta (ledgerView (pendingBlock b_mid)))(1 \<mapsto> 1)\<rparr>)
   \<and> FlowEventsToSDK b_mid [] = Inr []"
  by (simp add: b_mid_def chain_defs step_defs)



section \<open>Auxiliary facts\<close>


lemma mu_update_same: "mu b = m \<Longrightarrow> b\<lparr>mu := m\<rparr> = b"
  by (cases b) simp


lemma with_Lock_Unlocked:
  "mu b = Unlocked \<Longrightarrow>
   with_Lock b body =
     (case body (b\<lparr>mu := WriteLocked\<rparr>) of (r, b') \<Rightarrow> Some (r, b'\<lparr>mu := Unlocked\<rparr>))"
  by (simp add: with_Lock_def Lock_def Unlock_def)

lemma convertToSealedResults_total:
  "convertToSealedResults rs =
     Inr (map (\<lambda>(i, r). (i, projr (ToStorableResult (itr_Transaction r)))) rs)"
  by (induction rs) (auto simp: ToStorableResult_def)

text \<open>A pending block whose execution is complete is committed whenever the store
  takes the commit: the block is the pending block's, and the new pending block is
  made from it.\<close>

lemma commitBlock_complete:
  assumes "ExecutionComplete (pendingBlock b)" and "CommitFault (storage b) = None"
  shows "\<exists>st'. storage_CommitBlock (storage b) (pb_Block (pendingBlock b))
            (Collections (pendingBlock b)) (transactions (pendingBlock b))
            (map (\<lambda>(i, r). (i, projr (ToStorableResult (itr_Transaction r))))
               (transactionResults (pendingBlock b)))
            (Delta (ledgerView (pendingBlock b))) (events (pendingBlock b)) = Inr st'
     \<and> commitBlock f b =
         (Inr (pb_Block (pendingBlock b)),
          b\<lparr>storage := st',
            pendingBlock := newPendingBlock f (pb_Block (pendingBlock b))
                              (LedgerViewByHeight st' (height (pendingBlock b)))\<rparr>)"
  using assms
  by (auto simp: commitBlock_def convertToSealedResults_total Let_def
        ExecutionComplete_def ExecutionStarted_def Empty_def Transactions_def
        TransactionResults_def LedgerDelta_def Events_def storage_CommitBlock_def pb_Block_def)

lemma commitBlock_mu:
  "commitBlock f (b\<lparr>mu := m\<rparr>) = (case commitBlock f b of (r, b') \<Rightarrow> (r, b'\<lparr>mu := m\<rparr>))"
  by (auto simp: commitBlock_def Let_def split: sum.splits)

lemma map_of_sealed:
  "map_of (map (\<lambda>(i, r). (i, f r)) rs) i = map_option f (map_of rs i)"
  by (induction rs) auto

text \<open>One step of execution on a pending block that has a transaction left.\<close>

lemma executeNextTransaction_mu:
  "executeNextTransaction ctx (b\<lparr>mu := m\<rparr>) =
     (case executeNextTransaction ctx b of (r, b') \<Rightarrow> (r, b'\<lparr>mu := m\<rparr>))"
  by (auto simp: executeNextTransaction_def Let_def split: sum.splits prod.splits)

lemma executeNextTransaction_step:
  assumes "index (pendingBlock b) < length (transactions (pendingBlock b))"
    and "executeNextTransaction ctx b = (res, b')"
  shows "transactions (pendingBlock b') = transactions (pendingBlock b)
     \<and> (\<forall>tr. res = Inr tr \<longrightarrow>
           index (pendingBlock b') = Suc (index (pendingBlock b))
           \<and> tr_TransactionID tr =
               transaction_ID (transactions (pendingBlock b) ! index (pendingBlock b)))
     \<and> (\<forall>e. res = Inl e \<longrightarrow>
           (\<exists>msg. e = FatalError msg)
           \<and> index (pendingBlock b) \<le> index (pendingBlock b')
           \<and> index (pendingBlock b') \<le> Suc (index (pendingBlock b)))"
  using assms
  by (auto simp: executeNextTransaction_def pb_ExecuteNextTransaction_def Let_def
        ExecutionComplete_def VMTransactionResultToEmulator_def Transaction_def
      split: if_splits prod.splits sum.splits option.splits)

lemma executeNextTransaction_records:
  assumes "index (pendingBlock b) < length (transactions (pendingBlock b))"
    and "RunTransaction (vm b) ctx (transactions (pendingBlock b) ! index (pendingBlock b))
           (word_of_nat (index (pendingBlock b))) (ledgerView (pendingBlock b)) = (None, out, lv)"
    and "FlowEventsToSDK b (out_Events out) = Inr evs"
  shows "\<exists>tr b'. executeNextTransaction ctx b = (Inr tr, b')
     \<and> index (pendingBlock b') = index (pendingBlock b) + 1
     \<and> transactions (pendingBlock b') = transactions (pendingBlock b)
     \<and> tr_Error tr = out_Err out
     \<and> tr_TransactionID tr =
         transaction_ID (transactions (pendingBlock b) ! index (pendingBlock b))
     \<and> map_of (transactionResults (pendingBlock b'))
           (transaction_ID (transactions (pendingBlock b) ! index (pendingBlock b))) =
         Some \<lparr>itr_Transaction =
                  Transaction (transactions (pendingBlock b) ! index (pendingBlock b))
                    (word_of_nat (index (pendingBlock b))) out,
                itr_Index = word_of_nat (index (pendingBlock b))\<rparr>
     \<and> mu b' = mu b \<and> storage b' = storage b"
  using assms
  by (simp add: executeNextTransaction_def pb_ExecuteNextTransaction_def Let_def
        ExecutionComplete_def VMTransactionResultToEmulator_def Transaction_def update_conv')

text \<open>The loop of \<open>ExecuteBlock\<close>: the results it adds are those of the queued
  transactions from the cursor on, in order; without an error the block is complete,
  with an error the loop has stopped at the failing transaction.\<close>

lemma ExecuteBlock_loop_results:
  "index (pendingBlock b) \<le> length (transactions (pendingBlock b)) \<Longrightarrow>
   ExecuteBlock_loop ctx b acc = ((rs, err), b') \<Longrightarrow>
   \<exists>new. rs = acc @ new
     \<and> transactions (pendingBlock b') = transactions (pendingBlock b)
     \<and> map tr_TransactionID new =
         map transaction_ID
           (take (length new) (drop (index (pendingBlock b)) (transactions (pendingBlock b))))
     \<and> (err = None \<longrightarrow>
           ExecutionComplete (pendingBlock b')
           \<and> length new = length (transactions (pendingBlock b)) - index (pendingBlock b))
     \<and> (\<forall>e. err = Some e \<longrightarrow>
           (\<exists>msg. e = FatalError msg)
           \<and> length new < length (transactions (pendingBlock b)) - index (pendingBlock b)
           \<and> index (pendingBlock b) + length new \<le> index (pendingBlock b')
           \<and> index (pendingBlock b') \<le> index (pendingBlock b) + length new + 1)"
proof (induction ctx b acc arbitrary: rs err b' rule: ExecuteBlock_loop.induct)
  case (1 ctx b acc)
  show ?case
  proof (cases "ExecutionComplete (pendingBlock b)")
    case True
    with "1.prems"(2) have "rs = acc" "err = None" "b' = b"
      by (simp_all add: ExecuteBlock_loop.simps [of ctx b acc])
    with True show ?thesis
      by (simp add: ExecutionComplete_def)
  next
    case False
    with "1.prems"(1) have lt: "index (pendingBlock b) < length (transactions (pendingBlock b))"
      by (simp add: ExecutionComplete_def)
    obtain res b1 where step: "executeNextTransaction ctx b = (res, b1)"
      by (cases "executeNextTransaction ctx b")
    note facts = executeNextTransaction_step [OF lt step]
    show ?thesis
    proof (cases res)
      case (Inl e)
      with False step "1.prems"(2) have "rs = acc" "err = Some e" "b' = b1"
        by (simp_all add: ExecuteBlock_loop.simps [of ctx b acc])
      with facts Inl lt show ?thesis
        by auto
    next
      case (Inr tr)
      with False step "1.prems"(2)
      have rec: "ExecuteBlock_loop ctx b1 (acc @ [tr]) = ((rs, err), b')"
        by (simp add: ExecuteBlock_loop.simps [of ctx b acc])
      from facts Inr lt have b1: "transactions (pendingBlock b1) = transactions (pendingBlock b)"
        "index (pendingBlock b1) = Suc (index (pendingBlock b))"
        "tr_TransactionID tr =
           transaction_ID (transactions (pendingBlock b) ! index (pendingBlock b))"
        "index (pendingBlock b1) \<le> length (transactions (pendingBlock b1))"
        by auto
      from "1.IH" [OF False step [symmetric] Inr b1(4) rec]
      obtain new where new: "rs = (acc @ [tr]) @ new"
        "transactions (pendingBlock b') = transactions (pendingBlock b1)"
        "map tr_TransactionID new =
           map transaction_ID
             (take (length new) (drop (index (pendingBlock b1)) (transactions (pendingBlock b1))))"
        "err = None \<longrightarrow>
           ExecutionComplete (pendingBlock b')
           \<and> length new = length (transactions (pendingBlock b1)) - index (pendingBlock b1)"
        "\<forall>e. err = Some e \<longrightarrow>
           (\<exists>msg. e = FatalError msg)
           \<and> length new < length (transactions (pendingBlock b1)) - index (pendingBlock b1)
           \<and> index (pendingBlock b1) + length new \<le> index (pendingBlock b')
           \<and> index (pendingBlock b') \<le> index (pendingBlock b1) + length new + 1"
        by blast
      have drop: "drop (index (pendingBlock b)) (transactions (pendingBlock b)) =
          transactions (pendingBlock b) ! index (pendingBlock b)
          # drop (Suc (index (pendingBlock b))) (transactions (pendingBlock b))"
        using lt by (simp add: Cons_nth_drop_Suc)
      show ?thesis
      proof (intro exI [of _ "tr # new"] conjI)
        show "rs = acc @ tr # new" using new(1) by simp
        show "transactions (pendingBlock b') = transactions (pendingBlock b)"
          using new(2) b1(1) by simp
        show "map tr_TransactionID (tr # new) =
          map transaction_ID
            (take (length (tr # new))
               (drop (index (pendingBlock b)) (transactions (pendingBlock b))))"
          using new(3) b1(1,2,3) drop by simp
        show "err = None \<longrightarrow>
           ExecutionComplete (pendingBlock b')
           \<and> length (tr # new) = length (transactions (pendingBlock b)) - index (pendingBlock b)"
          using new(4) b1(1,2) lt by auto
        show "\<forall>e. err = Some e \<longrightarrow>
           (\<exists>msg. e = FatalError msg)
           \<and> length (tr # new) < length (transactions (pendingBlock b)) - index (pendingBlock b)
           \<and> index (pendingBlock b) + length (tr # new) \<le> index (pendingBlock b')
           \<and> index (pendingBlock b') \<le> index (pendingBlock b) + length (tr # new) + 1"
          using new(5) b1(1,2) lt by auto
      qed
    qed
  qed
qed



lemma executeScriptAtBlock_frame:
  "\<exists>r. executeScriptAtBlock c script arguments blk = (r, c)"
  by (simp add: executeScriptAtBlock_def Let_def split: prod.splits option.splits sum.splits)

section \<open>The pending block stays well-formed\<close>

text \<open>
  A pending block is made with the cursor at 0 on the latest committed block, one
  above its height. Admitting a transaction, a step of execution and the execution
  of the whole block keep the cursor within the queue and leave height and store as
  they are; a successful commit makes the next pending block on the block it has
  committed, which is then the latest one.
\<close>

lemma newPendingBlock_open:
  "index (newPendingBlock f blk lv) = 0 \<and> transactions (newPendingBlock f blk lv) = []
   \<and> height (newPendingBlock f blk lv) = Height (Header blk) + 1
   \<and> parentID (newPendingBlock f blk lv) = block_ID blk"
  by (simp add: newPendingBlock_def)

lemma AddTransaction_admits:
  assumes "AddTransaction b tx = Inr b'"
  shows "transactions (pendingBlock b') = transactions (pendingBlock b) @ [tx]
     \<and> index (pendingBlock b') = index (pendingBlock b)
     \<and> height (pendingBlock b') = height (pendingBlock b)
     \<and> storage b' = storage b \<and> mu b' = mu b"
  using assms
  by (auto simp: AddTransaction_def pb_AddTransaction_def
           split: if_splits sum.splits option.splits)

lemma executeNextTransaction_cursor:
  assumes "index (pendingBlock b) \<le> length (transactions (pendingBlock b))"
    and "executeNextTransaction ctx b = (res, b')"
  shows "index (pendingBlock b') \<le> length (transactions (pendingBlock b'))
     \<and> transactions (pendingBlock b') = transactions (pendingBlock b)
     \<and> height (pendingBlock b') = height (pendingBlock b)
     \<and> storage b' = storage b \<and> mu b' = mu b"
  using assms
  by (auto simp: executeNextTransaction_def pb_ExecuteNextTransaction_def Let_def
        ExecutionComplete_def
      split: if_splits prod.splits sum.splits option.splits)

lemma ExecuteBlock_cursor:
  assumes "index (pendingBlock b) \<le> length (transactions (pendingBlock b))"
    and "ExecuteBlock b = (res, b')"
  shows "index (pendingBlock b') \<le> length (transactions (pendingBlock b'))
     \<and> transactions (pendingBlock b') = transactions (pendingBlock b)"
proof (cases "Empty (pendingBlock b) \<or> ExecutionComplete (pendingBlock b)")
  case True
  with assms show ?thesis
    by (auto simp: ExecuteBlock_def Let_def split: if_splits)
next
  case False
  obtain rs err where res: "res = (rs, err)" by (cases res)
  with False assms(2)
  have loop: "ExecuteBlock_loop (Header (pb_Block (pendingBlock b))) b [] = ((rs, err), b')"
    by (simp add: ExecuteBlock_def Let_def)
  from ExecuteBlock_loop_results [OF assms(1) loop] show ?thesis
    by (cases err) (auto simp: ExecutionComplete_def)
qed

lemma commitBlock_on_latest:
  assumes "commitBlock f b = (Inr blk, b')"
  shows "LatestBlock (storage b') = Inr blk
     \<and> height (pendingBlock b') = Height (Header blk) + 1
     \<and> parentID (pendingBlock b') = block_ID blk
     \<and> index (pendingBlock b') = 0 \<and> transactions (pendingBlock b') = []"
  using assms
  by (auto simp: commitBlock_def Let_def storage_CommitBlock_def newPendingBlock_def
           split: if_splits sum.splits option.splits)

text \<open>A result recorded for a transaction stays recorded while transactions with other
  IDs are executed.\<close>

lemma executeNextTransaction_keeps_results:
  assumes "map_of (transactionResults (pendingBlock b)) i = Some r"
    and "executeNextTransaction ctx b = (res, b')"
    and "i \<noteq> transaction_ID (transactions (pendingBlock b) ! index (pendingBlock b))"
  shows "map_of (transactionResults (pendingBlock b')) i = Some r"
  using assms
  by (auto simp: executeNextTransaction_def pb_ExecuteNextTransaction_def Let_def update_conv'
      split: if_splits prod.splits sum.splits option.splits)

section \<open>Committing the pending block\<close>

text \<open>
  Claim C1. Take a pending block with N > 0 admitted transactions, on a blockchain
  whose mutex is free. \<open>CommitBlock\<close> fails with the commit-before-execution error
  when no transaction has been executed (cursor 0), and with the mid-execution error
  when the cursor is above 0 and below N; in both cases the blockchain stays as it
  was. When the cursor is N, whatever the outcomes of the transactions, and the store
  takes the commit, \<open>CommitBlock\<close> succeeds: the block it returns has the height of
  the latest committed block plus one (in \<open>uint64\<close>), it is the store's latest block
  afterwards, and the pending block is replaced by a new one made from it: empty, not
  started, one above the committed height.
\<close>

theorem CommitBlock_lifecycle:
  assumes "mu b = Unlocked" and "transactions (pendingBlock b) \<noteq> []"
  shows "(index (pendingBlock b) = 0 \<longrightarrow>
            CommitBlock f b =
              Some (Inl (PendingBlockCommitBeforeExecutionError (pb_ID (pendingBlock b))), b))
       \<and> (0 < index (pendingBlock b)
            \<and> index (pendingBlock b) < length (transactions (pendingBlock b)) \<longrightarrow>
            CommitBlock f b =
              Some (Inl (PendingBlockMidExecutionError (pb_ID (pendingBlock b))), b))
       \<and> (index (pendingBlock b) = length (transactions (pendingBlock b))
            \<and> CommitFault (storage b) = None
            \<and> LatestBlock (storage b) = Inr prev
            \<and> height (pendingBlock b) = Height (Header prev) + 1 \<longrightarrow>
            (\<exists>blk b'. CommitBlock f b = Some (Inr blk, b')
               \<and> Height (Header blk) = Height (Header prev) + 1
               \<and> LatestBlock (storage b') = Inr blk
               \<and> pendingBlock b' =
                   newPendingBlock f blk (LedgerViewByHeight (storage b') (Height (Header blk)))
               \<and> Empty (pendingBlock b')
               \<and> \<not> ExecutionStarted (pendingBlock b')
               \<and> height (pendingBlock b') = Height (Header blk) + 1))"
proof (intro conjI impI)
  assume "index (pendingBlock b) = 0"
  then have "commitBlock f b =
      (Inl (PendingBlockCommitBeforeExecutionError (pb_ID (pendingBlock b))), b)"
    using assms(2) by (simp add: commitBlock_def ExecutionStarted_def Empty_def)
  then show "CommitBlock f b =
      Some (Inl (PendingBlockCommitBeforeExecutionError (pb_ID (pendingBlock b))), b)"
    using assms(1)
    by (simp add: CommitBlock_def with_Lock_Unlocked commitBlock_mu mu_update_same)
next
  assume "0 < index (pendingBlock b)
            \<and> index (pendingBlock b) < length (transactions (pendingBlock b))"
  then have "commitBlock f b =
      (Inl (PendingBlockMidExecutionError (pb_ID (pendingBlock b))), b)"
    by (simp add: commitBlock_def ExecutionStarted_def ExecutionComplete_def)
  then show "CommitBlock f b =
      Some (Inl (PendingBlockMidExecutionError (pb_ID (pendingBlock b))), b)"
    using assms(1)
    by (simp add: CommitBlock_def with_Lock_Unlocked commitBlock_mu mu_update_same)
next
  assume a: "index (pendingBlock b) = length (transactions (pendingBlock b))
            \<and> CommitFault (storage b) = None
            \<and> LatestBlock (storage b) = Inr prev
            \<and> height (pendingBlock b) = Height (Header prev) + 1"
  then have complete: "ExecutionComplete (pendingBlock b)"
    and nofault: "CommitFault (storage b) = None"
    by (simp_all add: ExecutionComplete_def)
  from commitBlock_complete [OF complete nofault, of f]
  obtain st' where
    st: "storage_CommitBlock (storage b) (pb_Block (pendingBlock b))
            (Collections (pendingBlock b)) (transactions (pendingBlock b))
            (map (\<lambda>(i, r). (i, projr (ToStorableResult (itr_Transaction r))))
               (transactionResults (pendingBlock b)))
            (Delta (ledgerView (pendingBlock b))) (events (pendingBlock b)) = Inr st'"
    and cb: "commitBlock f b =
         (Inr (pb_Block (pendingBlock b)),
          b\<lparr>storage := st',
            pendingBlock := newPendingBlock f (pb_Block (pendingBlock b))
                              (LedgerViewByHeight st' (height (pendingBlock b)))\<rparr>)"
    by blast
  from st nofault have "LatestBlock st' = Inr (pb_Block (pendingBlock b))"
    by (auto simp: storage_CommitBlock_def)
  moreover have "Height (Header (pb_Block (pendingBlock b))) = height (pendingBlock b)"
    by (simp add: pb_Block_def)
  ultimately show "\<exists>blk b'. CommitBlock f b = Some (Inr blk, b')
               \<and> Height (Header blk) = Height (Header prev) + 1
               \<and> LatestBlock (storage b') = Inr blk
               \<and> pendingBlock b' =
                   newPendingBlock f blk (LedgerViewByHeight (storage b') (Height (Header blk)))
               \<and> Empty (pendingBlock b')
               \<and> \<not> ExecutionStarted (pendingBlock b')
               \<and> height (pendingBlock b') = Height (Header blk) + 1"
    using assms(1) a cb
    by (simp add: CommitBlock_def with_Lock_Unlocked commitBlock_mu newPendingBlock_def
          Empty_def ExecutionStarted_def)
qed

text \<open>The three cases on the small chain: two transactions admitted and none, one, both
  executed (the second one reverted).\<close>

theorem CommitBlock_lifecycle_witness:
  "mu b_two = Unlocked \<and> transactions (pendingBlock b_two) \<noteq> []
   \<and> index (pendingBlock b_two) = 0
   \<and> CommitBlock fresh0 b_two =
        Some (Inl (PendingBlockCommitBeforeExecutionError (pb_ID (pendingBlock b_two))), b_two)
   \<and> mu b_mid = Unlocked \<and> transactions (pendingBlock b_mid) \<noteq> []
   \<and> 0 < index (pendingBlock b_mid)
   \<and> index (pendingBlock b_mid) < length (transactions (pendingBlock b_mid))
   \<and> CommitBlock fresh0 b_mid =
        Some (Inl (PendingBlockMidExecutionError (pb_ID (pendingBlock b_mid))), b_mid)
   \<and> mu b_done = Unlocked \<and> transactions (pendingBlock b_done) \<noteq> []
   \<and> index (pendingBlock b_done) = length (transactions (pendingBlock b_done))
   \<and> CommitFault (storage b_done) = None \<and> LatestBlock (storage b_done) = Inr genesis
   \<and> height (pendingBlock b_done) = Height (Header genesis) + 1
   \<and> (\<exists>blk b'. CommitBlock fresh0 b_done = Some (Inr blk, b')
         \<and> Height (Header blk) = Height (Header genesis) + 1
         \<and> LatestBlock (storage b') = Inr blk
         \<and> pendingBlock b' =
             newPendingBlock fresh0 blk (LedgerViewByHeight (storage b') (Height (Header blk)))
         \<and> Empty (pendingBlock b')
         \<and> \<not> ExecutionStarted (pendingBlock b')
         \<and> height (pendingBlock b') = Height (Header blk) + 1)"
proof -
  have two: "mu b_two = Unlocked" "transactions (pendingBlock b_two) \<noteq> []"
    "index (pendingBlock b_two) = 0"
    by (simp_all add: b_two_pending)
  have mid: "mu b_mid = Unlocked" "transactions (pendingBlock b_mid) \<noteq> []"
    "0 < index (pendingBlock b_mid)"
    "index (pendingBlock b_mid) < length (transactions (pendingBlock b_mid))"
    by (simp_all add: b_mid_pending)
  have fin: "mu b_done = Unlocked" "transactions (pendingBlock b_done) \<noteq> []"
    "index (pendingBlock b_done) = length (transactions (pendingBlock b_done))"
    "CommitFault (storage b_done) = None" "LatestBlock (storage b_done) = Inr genesis"
    "height (pendingBlock b_done) = Height (Header genesis) + 1"
    by (simp_all add: b_done_pending store0_def genesis_def)
  show ?thesis
    using two mid fin
      CommitBlock_lifecycle [OF two(1,2), of fresh0 genesis]
      CommitBlock_lifecycle [OF mid(1,2), of fresh0 genesis]
      CommitBlock_lifecycle [OF fin(1,2), of fresh0 genesis]
    by (simp only: simp_thms)
qed

text \<open>
  Claim C8. \<open>CommitBlock\<close> on a pending block with no admitted transaction (and so
  with nothing executed) succeeds when the store takes the commit: no transaction is
  run, the block has no collection, its height is the latest committed height plus
  one, and the store holds it as its latest block, under its height and under its ID.
\<close>

theorem CommitBlock_empty_block:
  assumes "mu b = Unlocked"
    and "transactions (pendingBlock b) = []"
    and "index (pendingBlock b) \<le> length (transactions (pendingBlock b))"
    and "CommitFault (storage b) = None"
    and "LatestBlock (storage b) = Inr prev"
    and "height (pendingBlock b) = Height (Header prev) + 1"
  shows "\<exists>blk b'. CommitBlock f b = Some (Inr blk, b')
     \<and> Guarantees blk = []
     \<and> Height (Header blk) = Height (Header prev) + 1
     \<and> LatestBlock (storage b') = Inr blk
     \<and> BlockByHeight (storage b') (Height (Header blk)) = Inr blk
     \<and> BlockByID (storage b') (block_ID blk) = Inr blk
     \<and> pendingBlock b' =
         newPendingBlock f blk (LedgerViewByHeight (storage b') (Height (Header blk)))
     \<and> mu b' = Unlocked"
proof -
  have complete: "ExecutionComplete (pendingBlock b)"
    using assms(2,3) by (simp add: ExecutionComplete_def)
  from commitBlock_complete [OF complete assms(4), of f]
  obtain st' where
    st: "storage_CommitBlock (storage b) (pb_Block (pendingBlock b))
            (Collections (pendingBlock b)) (transactions (pendingBlock b))
            (map (\<lambda>(i, r). (i, projr (ToStorableResult (itr_Transaction r))))
               (transactionResults (pendingBlock b)))
            (Delta (ledgerView (pendingBlock b))) (events (pendingBlock b)) = Inr st'"
    and cb: "commitBlock f b =
         (Inr (pb_Block (pendingBlock b)),
          b\<lparr>storage := st',
            pendingBlock := newPendingBlock f (pb_Block (pendingBlock b))
                              (LedgerViewByHeight st' (height (pendingBlock b)))\<rparr>)"
    by blast
  from st assms(4) have
    "LatestBlock st' = Inr (pb_Block (pendingBlock b))"
    "BlockByHeight st' (height (pendingBlock b)) = Inr (pb_Block (pendingBlock b))"
    "BlockByID st' (block_ID (pb_Block (pendingBlock b))) = Inr (pb_Block (pendingBlock b))"
    by (auto simp: storage_CommitBlock_def pb_Block_def)
  moreover have "Guarantees (pb_Block (pendingBlock b)) = []"
    using assms(2) by (simp add: pb_Block_def Collections_def)
  moreover have "Height (Header (pb_Block (pendingBlock b))) = height (pendingBlock b)"
    by (simp add: pb_Block_def)
  ultimately show ?thesis
    using assms(1,6) cb
    by (simp add: CommitBlock_def with_Lock_Unlocked commitBlock_mu)
qed

theorem CommitBlock_empty_block_witness:
  "mu b0 = Unlocked \<and> transactions (pendingBlock b0) = []
   \<and> index (pendingBlock b0) \<le> length (transactions (pendingBlock b0))
   \<and> CommitFault (storage b0) = None \<and> LatestBlock (storage b0) = Inr genesis
   \<and> height (pendingBlock b0) = Height (Header genesis) + 1
   \<and> (\<exists>blk b'. CommitBlock fresh0 b0 = Some (Inr blk, b')
     \<and> Guarantees blk = []
     \<and> Height (Header blk) = Height (Header genesis) + 1
     \<and> LatestBlock (storage b') = Inr blk
     \<and> BlockByHeight (storage b') (Height (Header blk)) = Inr blk
     \<and> BlockByID (storage b') (block_ID blk) = Inr blk
     \<and> pendingBlock b' =
         newPendingBlock fresh0 blk (LedgerViewByHeight (storage b') (Height (Header blk)))
     \<and> mu b' = Unlocked)"
proof -
  have h: "mu b0 = Unlocked" "transactions (pendingBlock b0) = []"
    "index (pendingBlock b0) \<le> length (transactions (pendingBlock b0))"
    "CommitFault (storage b0) = None" "LatestBlock (storage b0) = Inr genesis"
    "height (pendingBlock b0) = Height (Header genesis) + 1"
    by (simp_all add: chain_defs)
  from CommitBlock_empty_block [OF h, of fresh0] h show ?thesis
    by blast
qed

section \<open>Admitting a transaction\<close>

text \<open>
  Claim C2. \<open>AddTransaction\<close> fails with the mid-execution error whenever execution
  of the pending block has started. Otherwise it fails with the duplicate-transaction
  error whenever the transaction's ID is in the pending block or the store finds a
  committed transaction under that ID. Otherwise, when the store reports that it has
  no such transaction and the validator accepts the transaction, the transaction is
  appended to the pending block's queue and nothing else changes.
\<close>

theorem AddTransaction_cases:
  "(ExecutionStarted (pendingBlock b) \<longrightarrow>
      AddTransaction b tx = Inl (PendingBlockMidExecutionError (pb_ID (pendingBlock b))))
 \<and> (\<not> ExecutionStarted (pendingBlock b)
      \<and> (ContainsTransaction (pendingBlock b) (transaction_ID tx)
          \<or> (\<exists>found. TransactionByID (storage b) (transaction_ID tx) = Inr found)) \<longrightarrow>
      AddTransaction b tx = Inl (DuplicateTransactionError (transaction_ID tx)))
 \<and> (\<not> ExecutionStarted (pendingBlock b)
      \<and> \<not> ContainsTransaction (pendingBlock b) (transaction_ID tx)
      \<and> TransactionByID (storage b) (transaction_ID tx) = Inl ErrNotFound
      \<and> transactionValidator b tx = None \<longrightarrow>
      AddTransaction b tx =
        Inr (b\<lparr>pendingBlock :=
                 (pendingBlock b)\<lparr>transactions := transactions (pendingBlock b) @ [tx]\<rparr>\<rparr>))"
  by (auto simp: AddTransaction_def pb_AddTransaction_def)

theorem AddTransaction_cases_witness:
  "ExecutionStarted (pendingBlock b_mid)
   \<and> AddTransaction b_mid tx1 = Inl (PendingBlockMidExecutionError (pb_ID (pendingBlock b_mid)))
   \<and> \<not> ExecutionStarted (pendingBlock b_two)
   \<and> ContainsTransaction (pendingBlock b_two) (transaction_ID tx1)
   \<and> AddTransaction b_two tx1 = Inl (DuplicateTransactionError (transaction_ID tx1))
   \<and> \<not> ExecutionStarted (pendingBlock b_sealed)
   \<and> (\<exists>found. TransactionByID (storage b_sealed) (transaction_ID tx1) = Inr found)
   \<and> AddTransaction b_sealed tx1 = Inl (DuplicateTransactionError (transaction_ID tx1))
   \<and> \<not> ExecutionStarted (pendingBlock b0)
   \<and> \<not> ContainsTransaction (pendingBlock b0) (transaction_ID tx1)
   \<and> TransactionByID (storage b0) (transaction_ID tx1) = Inl ErrNotFound
   \<and> transactionValidator b0 tx1 = None
   \<and> AddTransaction b0 tx1 =
        Inr (b0\<lparr>pendingBlock := (pendingBlock b0)\<lparr>transactions := [tx1]\<rparr>\<rparr>)"
proof -
  have started: "ExecutionStarted (pendingBlock b_mid)"
    by (simp add: ExecutionStarted_def b_mid_pending)
  have dup_pending: "\<not> ExecutionStarted (pendingBlock b_two)"
    "ContainsTransaction (pendingBlock b_two) (transaction_ID tx1)"
    by (simp_all add: ExecutionStarted_def ContainsTransaction_def b_two_pending)
  have dup_committed: "\<not> ExecutionStarted (pendingBlock b_sealed)"
    "\<exists>found. TransactionByID (storage b_sealed) (transaction_ID tx1) = Inr found"
    by (simp_all add: b_sealed_def b_done_def b_mid_def chain_defs step_defs commitBlock_def
        ExecutionStarted_def Empty_def Transactions_def TransactionResults_def LedgerDelta_def
        Events_def storage_CommitBlock_def ToStorableResult_def Delta_def)
  have fresh: "\<not> ExecutionStarted (pendingBlock b0)"
    "\<not> ContainsTransaction (pendingBlock b0) (transaction_ID tx1)"
    "TransactionByID (storage b0) (transaction_ID tx1) = Inl ErrNotFound"
    "transactionValidator b0 tx1 = None"
    "transactions (pendingBlock b0) = []"
    by (simp_all add: chain_defs ExecutionStarted_def ContainsTransaction_def)
  show ?thesis
    using started dup_pending dup_committed fresh
      AddTransaction_cases [of b_mid tx1] AddTransaction_cases [of b_two tx1]
      AddTransaction_cases [of b_sealed tx1] AddTransaction_cases [of b0 tx1]
    by simp
qed

section \<open>Lookups that find nothing\<close>



section \<open>The result of a transaction\<close>

text \<open>
  Claim C10. \<open>GetTransactionResult\<close>, called while no writer holds the mutex,
  returns, and never with a not-found error. For an ID in the pending block the
  result has status Pending; for an ID the store reports as not found (and not in
  the pending block) the result has status Unknown and there is no error; a result
  has status Sealed only if the store has a stored result for the ID, and then it
  carries the stored error message and events.
\<close>

theorem GetTransactionResult_never_not_found:
  assumes "mu b \<noteq> WriteLocked"
  shows "\<exists>r b'. GetTransactionResult b i = Some (r, b')
     \<and> (\<forall>e. r = Inl e \<longrightarrow> \<not> NotFoundError e)
     \<and> (ContainsTransaction (pendingBlock b) i \<longrightarrow>
          (\<exists>res. r = Inr res \<and> atr_Status res = TransactionStatusPending))
     \<and> (\<not> ContainsTransaction (pendingBlock b) i
          \<and> TransactionResultByID (storage b) i = Inl ErrNotFound \<longrightarrow>
          (\<exists>res. r = Inr res \<and> atr_Status res = TransactionStatusUnknown))
     \<and> (\<forall>res. r = Inr res \<and> atr_Status res = TransactionStatusSealed \<longrightarrow>
          (\<exists>stored. TransactionResultByID (storage b) i = Inr stored
             \<and> atr_ErrorMessage res = str_ErrorMessage stored
             \<and> atr_Events res = str_Events stored))
     \<and> (\<forall>stored. \<not> ContainsTransaction (pendingBlock b) i
          \<and> TransactionResultByID (storage b) i = Inr stored \<longrightarrow>
          (\<exists>res. r = Inr res \<and> atr_Status res = TransactionStatusSealed
             \<and> atr_ErrorMessage res = str_ErrorMessage stored
             \<and> atr_Events res = str_Events stored))"
  using assms
  by (cases "mu b")
     (auto simp: GetTransactionResult_def with_RLock_def RLock_def NotFoundError_def
           split: sum.splits)

theorem GetTransactionResult_never_not_found_witness:
  "mu b_two \<noteq> WriteLocked \<and> ContainsTransaction (pendingBlock b_two) (transaction_ID tx1)
   \<and> (\<exists>r b'. GetTransactionResult b_two (transaction_ID tx1) = Some (r, b')
         \<and> (\<exists>res. r = Inr res \<and> atr_Status res = TransactionStatusPending))
   \<and> mu b0 \<noteq> WriteLocked \<and> \<not> ContainsTransaction (pendingBlock b0) (transaction_ID tx1)
   \<and> TransactionResultByID (storage b0) (transaction_ID tx1) = Inl ErrNotFound
   \<and> (\<exists>r b'. GetTransactionResult b0 (transaction_ID tx1) = Some (r, b')
         \<and> (\<exists>res. r = Inr res \<and> atr_Status res = TransactionStatusUnknown))
   \<and> mu b_sealed \<noteq> WriteLocked
   \<and> \<not> ContainsTransaction (pendingBlock b_sealed) (transaction_ID tx2)
   \<and> (\<exists>r b'. GetTransactionResult b_sealed (transaction_ID tx2) = Some (r, b')
         \<and> (\<exists>res. r = Inr res \<and> atr_Status res = TransactionStatusSealed
               \<and> atr_ErrorMessage res = ''revert!''))"
proof -
  have pending: "mu b_two \<noteq> WriteLocked"
    "ContainsTransaction (pendingBlock b_two) (transaction_ID tx1)"
    by (simp_all add: b_two_pending ContainsTransaction_def)
  have unknown: "mu b0 \<noteq> WriteLocked"
    "\<not> ContainsTransaction (pendingBlock b0) (transaction_ID tx1)"
    "TransactionResultByID (storage b0) (transaction_ID tx1) = Inl ErrNotFound"
    by (simp_all add: chain_defs ContainsTransaction_def)
  have sealed: "mu b_sealed \<noteq> WriteLocked"
    "\<not> ContainsTransaction (pendingBlock b_sealed) (transaction_ID tx2)"
    "TransactionResultByID (storage b_sealed) (transaction_ID tx2) =
       Inr \<lparr>str_ErrorCode = 1101, str_ErrorMessage = ''revert!'', str_Logs = [], str_Events = []\<rparr>"
    by (simp_all add: b_sealed_storage ContainsTransaction_def)
  show ?thesis
    using pending unknown sealed
      GetTransactionResult_never_not_found [OF pending(1), of "transaction_ID tx1"]
      GetTransactionResult_never_not_found [OF unknown(1), of "transaction_ID tx1"]
      GetTransactionResult_never_not_found [OF sealed(1), of "transaction_ID tx2"]
    by (simp only: simp_thms) force
qed

section \<open>Executing the pending block\<close>



text \<open>
  Claim C4. On a pending block with a transaction left and a free mutex, when the
  virtual machine runs the transaction without a fatal error and its events convert,
  \<open>ExecuteNextTransaction\<close> returns the result and advances the cursor by one,
  whether the transaction succeeded or reverted, and the pending block records the
  procedure under the transaction's ID with its position. When a pending block whose
  execution is complete is committed (free mutex, store taking the commit), every
  recorded transaction that reverted is sealed: the block commits, the store holds a
  result for the transaction with the error's code and message,
  \<open>GetTransactionResult\<close> reports it as Sealed with that message, and the
  transaction's ID is in the collection of the committed block.
\<close>

theorem reverted_transaction_is_sealed:
  "(mu b = Unlocked
    \<and> index (pendingBlock b) < length (transactions (pendingBlock b))
    \<and> RunTransaction (vm b) (Header (pb_Block (pendingBlock b)))
         (transactions (pendingBlock b) ! index (pendingBlock b))
         (word_of_nat (index (pendingBlock b))) (ledgerView (pendingBlock b)) = (None, out, lv)
    \<and> FlowEventsToSDK b (out_Events out) = Inr evs \<longrightarrow>
    (\<exists>tr b'. ExecuteNextTransaction b = Some (Inr tr, b')
       \<and> index (pendingBlock b') = index (pendingBlock b) + 1
       \<and> tr_Error tr = out_Err out
       \<and> (Reverted tr \<longleftrightarrow> out_Err out \<noteq> None)
       \<and> map_of (transactionResults (pendingBlock b'))
             (transaction_ID (transactions (pendingBlock b) ! index (pendingBlock b))) =
           Some \<lparr>itr_Transaction =
                    Transaction (transactions (pendingBlock b) ! index (pendingBlock b))
                      (word_of_nat (index (pendingBlock b))) out,
                  itr_Index = word_of_nat (index (pendingBlock b))\<rparr>))
 \<and> (mu b2 = Unlocked \<and> ExecutionComplete (pendingBlock b2)
    \<and> CommitFault (storage b2) = None
    \<and> map_of (transactionResults (pendingBlock b2)) i = Some r
    \<and> tp_Err (itr_Transaction r) = Some (FVMError code msg) \<longrightarrow>
    (\<exists>blk b3. CommitBlock f b2 = Some (Inr blk, b3)
       \<and> TransactionResultByID (storage b3) i =
           Inr \<lparr>str_ErrorCode = code, str_ErrorMessage = msg,
                 str_Logs = tp_Logs (itr_Transaction r),
                 str_Events = tp_Events (itr_Transaction r)\<rparr>
       \<and> map_option fst (GetTransactionResult b3 i) =
           Some (Inr \<lparr>atr_Status = TransactionStatusSealed, atr_StatusCode = code,
                       atr_ErrorMessage = msg,
                       atr_Events = tp_Events (itr_Transaction r),
                       atr_TransactionID = i, atr_BlockHeight = 0\<rparr>)
       \<and> (i \<in> set (map transaction_ID (transactions (pendingBlock b2))) \<longrightarrow>
            Guarantees blk = [CollectionHash (map transaction_ID (transactions (pendingBlock b2)))]
            \<and> CollectionByID (storage b3)
                 (CollectionHash (map transaction_ID (transactions (pendingBlock b2)))) =
                Inr \<lparr>col_Transactions = map transaction_ID (transactions (pendingBlock b2))\<rparr>)))"
proof (intro conjI impI)
  assume a: "mu b = Unlocked
    \<and> index (pendingBlock b) < length (transactions (pendingBlock b))
    \<and> RunTransaction (vm b) (Header (pb_Block (pendingBlock b)))
         (transactions (pendingBlock b) ! index (pendingBlock b))
         (word_of_nat (index (pendingBlock b))) (ledgerView (pendingBlock b)) = (None, out, lv)
    \<and> FlowEventsToSDK b (out_Events out) = Inr evs"
  then have lt: "index (pendingBlock b) < length (transactions (pendingBlock b))"
    and run: "RunTransaction (vm b) (Header (pb_Block (pendingBlock b)))
         (transactions (pendingBlock b) ! index (pendingBlock b))
         (word_of_nat (index (pendingBlock b))) (ledgerView (pendingBlock b)) = (None, out, lv)"
    and conv: "FlowEventsToSDK b (out_Events out) = Inr evs"
    and free: "mu b = Unlocked"
    by simp_all
  from executeNextTransaction_records [OF lt run conv]
  obtain tr b' where step:
    "executeNextTransaction (Header (pb_Block (pendingBlock b))) b = (Inr tr, b')"
    "index (pendingBlock b') = index (pendingBlock b) + 1"
    "tr_Error tr = out_Err out"
    "map_of (transactionResults (pendingBlock b'))
           (transaction_ID (transactions (pendingBlock b) ! index (pendingBlock b))) =
         Some \<lparr>itr_Transaction =
                  Transaction (transactions (pendingBlock b) ! index (pendingBlock b))
                    (word_of_nat (index (pendingBlock b))) out,
                itr_Index = word_of_nat (index (pendingBlock b))\<rparr>"
    "mu b' = mu b"
    by blast
  from step(1,5) free have "ExecuteNextTransaction b = Some (Inr tr, b')"
    by (simp add: ExecuteNextTransaction_def with_Lock_Unlocked executeNextTransaction_mu
          mu_update_same)
  with step(2,3,4) show "\<exists>tr b'. ExecuteNextTransaction b = Some (Inr tr, b')
       \<and> index (pendingBlock b') = index (pendingBlock b) + 1
       \<and> tr_Error tr = out_Err out
       \<and> (Reverted tr \<longleftrightarrow> out_Err out \<noteq> None)
       \<and> map_of (transactionResults (pendingBlock b'))
             (transaction_ID (transactions (pendingBlock b) ! index (pendingBlock b))) =
           Some \<lparr>itr_Transaction =
                    Transaction (transactions (pendingBlock b) ! index (pendingBlock b))
                      (word_of_nat (index (pendingBlock b))) out,
                  itr_Index = word_of_nat (index (pendingBlock b))\<rparr>"
    by (simp add: Reverted_def Succeeded_def)
next
  assume a: "mu b2 = Unlocked \<and> ExecutionComplete (pendingBlock b2)
    \<and> CommitFault (storage b2) = None
    \<and> map_of (transactionResults (pendingBlock b2)) i = Some r
    \<and> tp_Err (itr_Transaction r) = Some (FVMError code msg)"
  then have complete: "ExecutionComplete (pendingBlock b2)"
    and nofault: "CommitFault (storage b2) = None"
    and free: "mu b2 = Unlocked"
    and rec: "map_of (transactionResults (pendingBlock b2)) i = Some r"
    and err: "tp_Err (itr_Transaction r) = Some (FVMError code msg)"
    by simp_all
  from commitBlock_complete [OF complete nofault, of f]
  obtain st' where
    st: "storage_CommitBlock (storage b2) (pb_Block (pendingBlock b2))
            (Collections (pendingBlock b2)) (transactions (pendingBlock b2))
            (map (\<lambda>(i, r). (i, projr (ToStorableResult (itr_Transaction r))))
               (transactionResults (pendingBlock b2)))
            (Delta (ledgerView (pendingBlock b2))) (events (pendingBlock b2)) = Inr st'"
    and cb: "commitBlock f b2 =
         (Inr (pb_Block (pendingBlock b2)),
          b2\<lparr>storage := st',
            pendingBlock := newPendingBlock f (pb_Block (pendingBlock b2))
                              (LedgerViewByHeight st' (height (pendingBlock b2)))\<rparr>)"
    by blast
  let ?b3 = "b2\<lparr>storage := st',
            pendingBlock := newPendingBlock f (pb_Block (pendingBlock b2))
                              (LedgerViewByHeight st' (height (pendingBlock b2)))\<rparr>"
  have commit: "CommitBlock f b2 = Some (Inr (pb_Block (pendingBlock b2)), ?b3)"
    using cb free
    by (simp add: CommitBlock_def with_Lock_Unlocked commitBlock_mu mu_update_same)
  have stored: "TransactionResultByID st' i =
           Inr \<lparr>str_ErrorCode = code, str_ErrorMessage = msg,
                 str_Logs = tp_Logs (itr_Transaction r),
                 str_Events = tp_Events (itr_Transaction r)\<rparr>"
    using st nofault rec err
    by (auto simp: storage_CommitBlock_def map_of_sealed ToStorableResult_def)
  have result: "map_option fst (GetTransactionResult ?b3 i) =
           Some (Inr \<lparr>atr_Status = TransactionStatusSealed, atr_StatusCode = code,
                       atr_ErrorMessage = msg,
                       atr_Events = tp_Events (itr_Transaction r),
                       atr_TransactionID = i, atr_BlockHeight = 0\<rparr>)"
    using stored free
    by (simp add: GetTransactionResult_def with_RLock_def RLock_def ContainsTransaction_def
          newPendingBlock_def)
  have coll: "i \<in> set (map transaction_ID (transactions (pendingBlock b2))) \<longrightarrow>
            Guarantees (pb_Block (pendingBlock b2)) =
              [CollectionHash (map transaction_ID (transactions (pendingBlock b2)))]
            \<and> CollectionByID st'
                 (CollectionHash (map transaction_ID (transactions (pendingBlock b2)))) =
                Inr \<lparr>col_Transactions = map transaction_ID (transactions (pendingBlock b2))\<rparr>"
    using st nofault
    by (auto simp: storage_CommitBlock_def pb_Block_def Collections_def collection_ID_def)
  show "\<exists>blk b3. CommitBlock f b2 = Some (Inr blk, b3)
       \<and> TransactionResultByID (storage b3) i =
           Inr \<lparr>str_ErrorCode = code, str_ErrorMessage = msg,
                 str_Logs = tp_Logs (itr_Transaction r),
                 str_Events = tp_Events (itr_Transaction r)\<rparr>
       \<and> map_option fst (GetTransactionResult b3 i) =
           Some (Inr \<lparr>atr_Status = TransactionStatusSealed, atr_StatusCode = code,
                       atr_ErrorMessage = msg,
                       atr_Events = tp_Events (itr_Transaction r),
                       atr_TransactionID = i, atr_BlockHeight = 0\<rparr>)
       \<and> (i \<in> set (map transaction_ID (transactions (pendingBlock b2))) \<longrightarrow>
            Guarantees blk = [CollectionHash (map transaction_ID (transactions (pendingBlock b2)))]
            \<and> CollectionByID (storage b3)
                 (CollectionHash (map transaction_ID (transactions (pendingBlock b2)))) =
                Inr \<lparr>col_Transactions = map transaction_ID (transactions (pendingBlock b2))\<rparr>)"
    using commit stored result coll
    by (intro exI [of _ "pb_Block (pendingBlock b2)"] exI [of _ ?b3]) simp
qed

text \<open>On the small chain: the second transaction reverts; the step advances the cursor
  from 1 to 2, and the commit seals the transaction with its error message.\<close>

theorem reverted_transaction_is_sealed_witness:
  "mu b_mid = Unlocked
   \<and> index (pendingBlock b_mid) < length (transactions (pendingBlock b_mid))
   \<and> (\<exists>tr b'. ExecuteNextTransaction b_mid = Some (Inr tr, b')
         \<and> index (pendingBlock b') = index (pendingBlock b_mid) + 1
         \<and> Reverted tr)
   \<and> mu b_done = Unlocked \<and> ExecutionComplete (pendingBlock b_done)
   \<and> CommitFault (storage b_done) = None
   \<and> (\<exists>blk b3. CommitBlock fresh0 b_done = Some (Inr blk, b3)
         \<and> map_option fst (GetTransactionResult b3 (transaction_ID tx2)) =
             Some (Inr \<lparr>atr_Status = TransactionStatusSealed, atr_StatusCode = 1101,
                         atr_ErrorMessage = ''revert!'', atr_Events = [],
                         atr_TransactionID = transaction_ID tx2, atr_BlockHeight = 0\<rparr>)
         \<and> Guarantees blk = [CollectionHash [transaction_ID tx1, transaction_ID tx2]])"
proof -
  have step: "mu b_mid = Unlocked"
    "index (pendingBlock b_mid) < length (transactions (pendingBlock b_mid))"
    by (simp_all add: b_mid_pending)
  have commit: "mu b_done = Unlocked" "ExecutionComplete (pendingBlock b_done)"
    "CommitFault (storage b_done) = None"
    "transaction_ID tx2 \<in> set (map transaction_ID (transactions (pendingBlock b_done)))"
    "map transaction_ID (transactions (pendingBlock b_done)) =
       [transaction_ID tx1, transaction_ID tx2]"
    by (simp_all add: b_done_pending ExecutionComplete_def store0_def)
  show ?thesis
    using step commit b_mid_run b_done_results
      reverted_transaction_is_sealed
        [where b = b_mid
           and out = "\<lparr>out_Err = Some (FVMError 1101 ''revert!''), out_Events = [],
                        out_Logs = [], out_ComputationUsed = 1\<rparr>"
           and lv = "(ledgerView (pendingBlock b_mid))\<lparr>lv_delta :=
                        (lv_delta (ledgerView (pendingBlock b_mid)))(1 \<mapsto> 1)\<rparr>"
           and evs = "[]"
           and ?b2.0 = b_done and i = "transaction_ID tx2"
           and r = "\<lparr>itr_Transaction =
                      \<lparr>tp_Transaction = tx2, tp_TxIndex = 1,
                        tp_Err = Some (FVMError 1101 ''revert!''), tp_Events = [],
                        tp_Logs = [], tp_ComputationUsed = 1\<rparr>,
                    itr_Index = 1\<rparr>"
           and code = 1101 and msg = "''revert!''" and f = fresh0]
    by auto
qed

section \<open>Events of a height range\<close>



section \<open>Scripts leave the chain as it is\<close>

text \<open>
  Claim C7. \<open>ExecuteScript\<close>, \<open>ExecuteScriptAtBlockHeight\<close> and
  \<open>ExecuteScriptAtBlockID\<close> return the blockchain they were called on: store,
  pending block and mutex are as before, whatever the virtual machine wrote into the
  ledger view made for the script, and whether the script succeeds or not. The first
  two take the read lock and are stated for a mutex that no writer holds, where they
  return.
\<close>

theorem scripts_leave_chain_unchanged:
  "(mu b \<noteq> WriteLocked \<longrightarrow> (\<exists>r. ExecuteScript b script arguments = Some (r, b)))
 \<and> (mu b \<noteq> WriteLocked \<longrightarrow>
      (\<exists>r. ExecuteScriptAtBlockHeight b script arguments h = Some (r, b)))
 \<and> (\<exists>r. ExecuteScriptAtBlockID b script arguments i = (r, b))
 \<and> (\<exists>r. executeScriptAtBlock b script arguments blk = (r, b))"
proof (intro conjI impI)
  assume "mu b \<noteq> WriteLocked"
  then obtain n where n: "mu b = Readers n" by (cases "mu b") auto
  let ?c = "b\<lparr>mu := Readers (Suc n)\<rparr>"
  have "\<exists>r. (case GetLatestBlock ?c of
               Inl err \<Rightarrow> (Inl err, ?c)
             | Inr (latestBlock, status) \<Rightarrow>
                 executeScriptAtBlock ?c script arguments latestBlock) = (r, ?c)"
    using executeScriptAtBlock_frame [of ?c script arguments]
    by (cases "GetLatestBlock ?c") auto
  then show "\<exists>r. ExecuteScript b script arguments = Some (r, b)"
    using n by (auto simp: ExecuteScript_def RLock_def RUnlock_def mu_update_same)
next
  assume "mu b \<noteq> WriteLocked"
  then obtain n where n: "mu b = Readers n" by (cases "mu b") auto
  let ?c = "b\<lparr>mu := Readers (Suc n)\<rparr>"
  have "\<exists>r. (case getBlockByHeight ?c h of
               Inl err \<Rightarrow> (Inl err, ?c)
             | Inr requestedBlock \<Rightarrow>
                 executeScriptAtBlock ?c script arguments requestedBlock) = (r, ?c)"
    using executeScriptAtBlock_frame [of ?c script arguments]
    by (cases "getBlockByHeight ?c h") auto
  then show "\<exists>r. ExecuteScriptAtBlockHeight b script arguments h = Some (r, b)"
    using n by (auto simp: ExecuteScriptAtBlockHeight_def RLock_def RUnlock_def mu_update_same)
next
  show "\<exists>r. ExecuteScriptAtBlockID b script arguments i = (r, b)"
    using executeScriptAtBlock_frame [of b script arguments]
    by (cases "GetBlockByID b i") (auto simp: ExecuteScriptAtBlockID_def)
next
  show "\<exists>r. executeScriptAtBlock b script arguments blk = (r, b)"
    by (rule executeScriptAtBlock_frame)
qed

text \<open>On the small chain the virtual machine writes register 0 of the view on every
  run; the script returns its value and the chain is the same afterwards.\<close>

theorem scripts_leave_chain_unchanged_witness:
  "mu b0 \<noteq> WriteLocked
   \<and> lv_delta (snd (snd (RunScript (vm b0) (Header genesis) (Script ''getCount'' [])
                 (LedgerViewByHeight (storage b0) 0)))) 0 = Some 7
   \<and> (\<exists>res. ExecuteScript b0 ''getCount'' [] = Some (Inr res, b0) \<and> sr_Value res = Some ''ok'')
   \<and> (\<exists>res. ExecuteScriptAtBlockHeight b0 ''getCount'' [] 0 = Some (Inr res, b0)
          \<and> sr_Value res = Some ''ok'')
   \<and> (\<exists>res. ExecuteScriptAtBlockID b0 ''getCount'' [] (block_ID genesis) = (Inr res, b0)
          \<and> sr_Value res = Some ''ok'')"
proof -
  have free: "mu b0 \<noteq> WriteLocked"
    by (simp add: chain_defs)
  have writes: "lv_delta (snd (snd (RunScript (vm b0) (Header genesis) (Script ''getCount'' [])
                 (LedgerViewByHeight (storage b0) 0)))) 0 = Some 7"
    by (simp add: chain_defs)
  from scripts_leave_chain_unchanged [of b0 "''getCount''" "[]" 0 "block_ID genesis" genesis] free
  obtain r1 r2 r3 where r: "ExecuteScript b0 ''getCount'' [] = Some (r1, b0)"
    "ExecuteScriptAtBlockHeight b0 ''getCount'' [] 0 = Some (r2, b0)"
    "ExecuteScriptAtBlockID b0 ''getCount'' [] (block_ID genesis) = (r3, b0)"
    by blast
  have v1: "map_option fst (ExecuteScript b0 ''getCount'' []) =
      Some (Inr \<lparr>sr_ScriptID = ScriptHash ''getCount'', sr_Value = Some ''ok'',
                  sr_Error = None, sr_Logs = [], sr_Events = [], sr_ComputationUsed = 0\<rparr>)"
    by (simp add: ExecuteScript_def RLock_def GetLatestBlock_def executeScriptAtBlock_def
          Script_def Let_def chain_defs)
  have v2: "map_option fst (ExecuteScriptAtBlockHeight b0 ''getCount'' [] 0) =
      Some (Inr \<lparr>sr_ScriptID = ScriptHash ''getCount'', sr_Value = Some ''ok'',
                  sr_Error = None, sr_Logs = [], sr_Events = [], sr_ComputationUsed = 0\<rparr>)"
    by (simp add: ExecuteScriptAtBlockHeight_def RLock_def getBlockByHeight_def
          executeScriptAtBlock_def Script_def Let_def chain_defs)
  have v3: "fst (ExecuteScriptAtBlockID b0 ''getCount'' [] (block_ID genesis)) =
      Inr \<lparr>sr_ScriptID = ScriptHash ''getCount'', sr_Value = Some ''ok'',
            sr_Error = None, sr_Logs = [], sr_Events = [], sr_ComputationUsed = 0\<rparr>"
    by (simp add: ExecuteScriptAtBlockID_def GetBlockByID_def executeScriptAtBlock_def
          Script_def Let_def chain_defs)
  from free writes r v1 v2 v3 show ?thesis
    by auto
qed

section \<open>Operations and the mutex\<close>

text \<open>
  Claim C9 says that adding a transaction, executing, committing and resetting all
  take the coordination lock. \<open>ExecuteNextTransaction\<close>, \<open>CommitBlock\<close>,
  \<open>ExecuteAndCommitBlock\<close> and \<open>ResetPendingBlock\<close> do: while another caller holds
  the write lock they wait. \<open>AddTransaction\<close> and \<open>ExecuteBlock\<close> do not touch the
  mutex: on the small chain, with the write lock held by another caller,
  \<open>AddTransaction\<close> admits the transaction into the pending block and
  \<open>ExecuteBlock\<close> executes the whole block.
\<close>

theorem AddTransaction_ignores_write_lock:
  "AddTransaction (b0\<lparr>mu := WriteLocked\<rparr>) tx1 =
     Inr (b0\<lparr>mu := WriteLocked,
             pendingBlock := (pendingBlock b0)\<lparr>transactions := [tx1]\<rparr>\<rparr>)
   \<and> fst (ExecuteBlock (b_two\<lparr>mu := WriteLocked\<rparr>)) = fst (ExecuteBlock b_two)
   \<and> snd (fst (ExecuteBlock b_two)) = None
   \<and> ExecuteNextTransaction (b_two\<lparr>mu := WriteLocked\<rparr>) = None
   \<and> CommitBlock fresh0 (b0\<lparr>mu := WriteLocked\<rparr>) = None
   \<and> ExecuteAndCommitBlock fresh0 (b0\<lparr>mu := WriteLocked\<rparr>) = None
   \<and> ResetPendingBlock fresh0 (b0\<lparr>mu := WriteLocked\<rparr>) = None"
proof -
  have add: "AddTransaction (b0\<lparr>mu := WriteLocked\<rparr>) tx1 =
     Inr (b0\<lparr>mu := WriteLocked,
             pendingBlock := (pendingBlock b0)\<lparr>transactions := [tx1]\<rparr>\<rparr>)"
    by (simp add: AddTransaction_def ExecutionStarted_def ContainsTransaction_def
          pb_AddTransaction_def chain_defs)
  have exec: "fst (ExecuteBlock (b_two\<lparr>mu := WriteLocked\<rparr>)) = fst (ExecuteBlock b_two)"
    "snd (fst (ExecuteBlock b_two)) = None"
    by (simp_all add: ExecuteBlock_def ExecuteBlock_loop.simps Empty_def chain_defs step_defs)
  have locked: "ExecuteNextTransaction (b_two\<lparr>mu := WriteLocked\<rparr>) = None"
    "CommitBlock fresh0 (b0\<lparr>mu := WriteLocked\<rparr>) = None"
    "ExecuteAndCommitBlock fresh0 (b0\<lparr>mu := WriteLocked\<rparr>) = None"
    "ResetPendingBlock fresh0 (b0\<lparr>mu := WriteLocked\<rparr>) = None"
    by (simp_all add: ExecuteNextTransaction_def CommitBlock_def ExecuteAndCommitBlock_def
          ResetPendingBlock_def with_Lock_def Lock_def)
  from add exec locked show ?thesis
    by simp
qed

end
